theory Spec2Isabelle
  imports Complex_Main "HOL-Library.AList" "HOL-Library.Sublist"
begin

section \<open>Syntax tree\<close>

text \<open>
  The nodes of \<^verbatim>\<open>pithon.syntax\<close> as the evaluator reads them: one constructor
  per \<^verbatim>\<open>isinstance\<close> case of \<^verbatim>\<open>evaluate_stmt\<close>, with the fields the
  evaluator accesses. A function definition node is the \<open>funcdef\<close> a closure keeps.
\<close>

datatype node =
    PiNumber rat
  | PiBool bool
  | PiNone
  | PiString string
  | PiList "node list"
  | PiTuple "node list"
  | PiVariable string
  | PiBinaryOperation node string node
  | PiAssignment string node
  | PiIfThenElse node "node list" "node list"
  | PiNot node
  | PiAnd node node
  | PiOr node node
  | PiWhile node "node list"
  | PiFunctionDef funcdef
  | PiReturn node
  | PiFunctionCall node "node list"
  | PiFor string node "node list"
  | PiBreak
  | PiContinue
  | PiIn node node
  | PiSubscript node node
  | PiClassDef string "funcdef list"
  | PiAttribute node string
  | PiAttributeAssignment node string node
and funcdef =
    FuncDef (name: string) (arg_names: "string list") (vararg: "string option")
      (body: "node list")

text \<open>
  \<^verbatim>\<open>evaluate\<close> accepts a list of statements or a single statement.
\<close>

datatype program = Program "node list" | Statement node

section \<open>Values, exceptions and the store\<close>

text \<open>
  Environment frames and objects are shared by reference in the source, so they live in
  a store and values hold their addresses. Numbers are the finite values of Python's
  \<^verbatim>\<open>int\<close> and \<^verbatim>\<open>float\<close>. A primitive is a host callable, named by its key in the
  primitive table.
\<close>

datatype closure = FunctionClosure (funcdef: funcdef) (closure_env: nat)

datatype classdef = ClassDef (class_name: string) (methods: "(string \<times> closure) list")

datatype env_value =
    VNumber rat
  | VBool bool
  | VString string
  | VNone
  | VList "env_value list"
  | VTuple "env_value list"
  | VFunctionClosure closure
  | VMethodClosure closure env_value
  | VClassDef classdef
  | VObject nat
  | VPrimitive string

text \<open>
  The Python exception classes that can leave the evaluator. \<open>HostError\<close> carries a class
  name and a message, for a host exception of any other class.
\<close>

datatype exn =
    TypeError string
  | ZeroDivisionError string
  | ValueError string
  | RuntimeError string
  | AttributeError string
  | IndexError string
  | HostError string string
  | ReturnException env_value
  | BreakException
  | ContinueException

record env_frame =
  vars :: "(string \<times> env_value) list"
  parent :: "nat option"

record object =
  class_def :: classdef
  attributes :: "(string \<times> env_value) list"

record store =
  frames :: "env_frame list"
  objects :: "object list"

text \<open>
  The collaborators that are outside the evaluator: the primitive table of
  \<^verbatim>\<open>pithon.evaluator.primitive\<close>, the text of the message of \<^verbatim>\<open>check_type\<close>, the
  exception \<^verbatim>\<open>EnvFrame.lookup\<close> raises for an unbound name.
\<close>

record host =
  primitive :: "string \<Rightarrow> env_value list \<Rightarrow> exn + env_value"
  primitive_names :: "string list"
  primitive_type_name :: "string \<Rightarrow> string"
  unbound_name :: "string \<Rightarrow> exn"
  check_type_message :: "env_value \<Rightarrow> string \<Rightarrow> string"

text \<open>
  An evaluation gives a value or raises, and leaves a store in both cases; \<open>None\<close> is an
  evaluation that has not finished within its fuel.
\<close>

type_synonym 'a outcome = "((exn + 'a) \<times> store) option"

definition and_then :: "'a outcome \<Rightarrow> ('a \<Rightarrow> store \<Rightarrow> 'b outcome) \<Rightarrow> 'b outcome" where
  "and_then m f =
     (case m of
        None \<Rightarrow> None
      | Some (Inl e, s) \<Rightarrow> Some (Inl e, s)
      | Some (Inr v, s) \<Rightarrow> f v s)"

text \<open>
  \<^verbatim>\<open>except (TypeError, ZeroDivisionError, ValueError) as e: raise RuntimeError(str(e))\<close>
\<close>

fun to_runtime_error :: "exn \<Rightarrow> exn" where
  "to_runtime_error (TypeError m) = RuntimeError m"
| "to_runtime_error (ZeroDivisionError m) = RuntimeError m"
| "to_runtime_error (ValueError m) = RuntimeError m"
| "to_runtime_error e = e"

definition wrap_errors :: "'a outcome \<Rightarrow> 'a outcome" where
  "wrap_errors m =
     (case m of
        None \<Rightarrow> None
      | Some (Inl e, s) \<Rightarrow> Some (Inl (to_runtime_error e), s)
      | Some (Inr v, s) \<Rightarrow> Some (Inr v, s))"

text \<open>
  \<^verbatim>\<open>except ReturnException as ret: return ret.value\<close>
\<close>

definition catch_return :: "env_value outcome \<Rightarrow> env_value outcome" where
  "catch_return m =
     (case m of
        Some (Inl (ReturnException v), s) \<Rightarrow> Some (Inr v, s)
      | r \<Rightarrow> r)"

section \<open>Environment frames\<close>

text \<open>
  Modelled from the spec: \<^verbatim>\<open>pithon.evaluator.envframe\<close> (class \<^verbatim>\<open>EnvFrame\<close>) is missing.
  \<open>lookup\<close> walks from the current frame to the root and returns the first match;
  \<open>insert\<close> writes into the current frame, creating or overwriting the binding there.
  The walk is bounded by the number of frames, which any chain of parents created by
  \<open>new_frame\<close> respects.
\<close>

fun frame_lookup :: "nat \<Rightarrow> env_frame list \<Rightarrow> nat \<Rightarrow> string \<Rightarrow> env_value option" where
  "frame_lookup 0 fs a x = None"
| "frame_lookup (Suc k) fs a x =
     (if a < length fs then
        (case map_of (vars (fs ! a)) x of
           Some v \<Rightarrow> Some v
         | None \<Rightarrow>
            (case parent (fs ! a) of
               None \<Rightarrow> None
             | Some p \<Rightarrow> frame_lookup k fs p x))
      else None)"

definition lookup :: "host \<Rightarrow> store \<Rightarrow> nat \<Rightarrow> string \<Rightarrow> exn + env_value" where
  "lookup h s env x =
     (case frame_lookup (length (frames s)) (frames s) env x of
        Some v \<Rightarrow> Inr v
      | None \<Rightarrow> Inl (unbound_name h x))"

definition insert_env :: "nat \<Rightarrow> string \<Rightarrow> env_value \<Rightarrow> store \<Rightarrow> store" where
  "insert_env env x v s =
     s\<lparr>frames := (frames s)[env := (frames s ! env)\<lparr>vars := AList.update x v (vars (frames s ! env))\<rparr>]\<rparr>"

text \<open>\<^verbatim>\<open>EnvFrame(parent=...)\<close>: a new empty frame, at a fresh address.\<close>

definition new_frame :: "nat option \<Rightarrow> store \<Rightarrow> nat \<times> store" where
  "new_frame p s = (length (frames s), s\<lparr>frames := frames s @ [\<lparr>vars = [], parent = p\<rparr>]\<rparr>)"

text \<open>\<^verbatim>\<open>VObject(class_def=..., attributes={})\<close>: a new object, at a fresh address.\<close>

definition new_object :: "classdef \<Rightarrow> store \<Rightarrow> nat \<times> store" where
  "new_object c s =
     (length (objects s), s\<lparr>objects := objects s @ [\<lparr>class_def = c, attributes = []\<rparr>]\<rparr>)"

definition set_attribute :: "nat \<Rightarrow> string \<Rightarrow> env_value \<Rightarrow> store \<Rightarrow> store" where
  "set_attribute a x v s =
     s\<lparr>objects := (objects s)[a := (objects s ! a)\<lparr>attributes := AList.update x v (attributes (objects s ! a))\<rparr>]\<rparr>"

text \<open>
  \<^verbatim>\<open>initial_env\<close>: the root frame, holding the primitive table.
\<close>

definition initial_env :: "host \<Rightarrow> nat \<times> store" where
  "initial_env h =
     (0, \<lparr>frames = [\<lparr>vars = map (\<lambda>n. (n, VPrimitive n)) (primitive_names h), parent = None\<rparr>],
          objects = []\<rparr>)"

section \<open>Python built-ins the evaluator relies on\<close>

text \<open>\<^verbatim>\<open>int(x)\<close> on a finite number truncates toward zero.\<close>

definition py_int :: "rat \<Rightarrow> int" where
  "py_int q = (if 0 \<le> q then \<lfloor>q\<rfloor> else \<lceil>q\<rceil>)"

text \<open>
  \<^verbatim>\<open>xs[i]\<close> on a list, tuple or string: a negative index counts from the end, and an
  index outside \<open>-n \<le> i < n\<close> raises \<^verbatim>\<open>IndexError\<close>.
\<close>

definition py_index :: "string \<Rightarrow> 'a list \<Rightarrow> int \<Rightarrow> exn + 'a" where
  "py_index kind xs i =
     (let n = int (length xs); j = (if i < 0 then i + n else i)
      in if 0 \<le> j \<and> j < n then Inr (xs ! nat j)
         else Inl (IndexError (kind @ '' index out of range'')))"

text \<open>Truthiness of \<^verbatim>\<open>obj.value\<close> for the kinds \<open>not\<close>, \<open>and\<close>, \<open>or\<close> accept.\<close>

fun truthy :: "env_value \<Rightarrow> bool" where
  "truthy (VNumber q) = (q \<noteq> 0)"
| "truthy (VBool b) = b"
| "truthy (VString str) = (str \<noteq> [])"
| "truthy VNone = False"
| "truthy (VList xs) = (xs \<noteq> [])"
| "truthy (VTuple xs) = (xs \<noteq> [])"
| "truthy v = True"

text \<open>\<^verbatim>\<open>type(obj).__name__\<close>\<close>

fun type_name :: "host \<Rightarrow> env_value \<Rightarrow> string" where
  "type_name h (VNumber q) = ''VNumber''"
| "type_name h (VBool b) = ''VBool''"
| "type_name h (VString str) = ''VString''"
| "type_name h VNone = ''VNone''"
| "type_name h (VList xs) = ''VList''"
| "type_name h (VTuple xs) = ''VTuple''"
| "type_name h (VFunctionClosure c) = ''VFunctionClosure''"
| "type_name h (VMethodClosure c i) = ''VMethodClosure''"
| "type_name h (VClassDef c) = ''VClassDef''"
| "type_name h (VObject a) = ''VObject''"
| "type_name h (VPrimitive p) = primitive_type_name h p"

text \<open>
  Modelled from the spec: \<^verbatim>\<open>check_type\<close> of \<^verbatim>\<open>pithon.evaluator.primitive\<close> is missing.
  It returns the value when it has the expected kind and fails with a type mismatch
  (\<^verbatim>\<open>TypeError\<close>) otherwise.
\<close>

definition check_type_VBool :: "host \<Rightarrow> env_value \<Rightarrow> exn + bool" where
  "check_type_VBool h v =
     (case v of VBool b \<Rightarrow> Inr b | _ \<Rightarrow> Inl (TypeError (check_type_message h v ''VBool'')))"

definition check_type_VNumber :: "host \<Rightarrow> env_value \<Rightarrow> exn + rat" where
  "check_type_VNumber h v =
     (case v of VNumber q \<Rightarrow> Inr q | _ \<Rightarrow> Inl (TypeError (check_type_message h v ''VNumber'')))"

section \<open>Messages\<close>

text \<open>
  The messages of the evaluator's own exceptions, letter for letter except that an
  accented letter of the source is written without its accent.
\<close>

definition msg_only_objects :: string where
  "msg_only_objects = ''Seuls les objets peuvent avoir des attributs.''"

definition msg_no_attribute :: "string \<Rightarrow> string" where
  "msg_no_attribute attr = ''L'objet n'a pas d'attribut '' @ [CHR 0x27] @ attr @ [CHR 0x27]"

definition msg_piandor :: "string \<Rightarrow> string" where
  "msg_piandor tn = ''Type non supporte pour l'operateur 'and': '' @ tn"

definition msg_for :: string where
  "msg_for = ''La boucle for attend une liste ou un tuple.''"

definition msg_subscript :: string where
  "msg_subscript = ''L'indexation n'est supportee que pour les listes, tuples et chaines.''"

definition msg_in :: string where
  "msg_in = [CHR 0x27] @ ''in' n'est supporte que pour les listes et chaines.''"

definition msg_not_callable :: string where
  "msg_not_callable = ''Tentative d'appel d'un objet non-fonction.''"

definition msg_missing_argument :: string where
  "msg_missing_argument = ''Argument manquant pour la fonction.''"

definition msg_too_many_arguments :: string where
  "msg_too_many_arguments = ''Trop d'arguments pour la fonction.''"

definition msg_self :: string where
  "msg_self = ''La premiere argument d'une methode doit etre 'self'.''"

definition msg_missing_method_argument :: "string \<Rightarrow> string" where
  "msg_missing_method_argument arg_name =
     ''Argument manquant '' @ [CHR 0x27] @ arg_name @ [CHR 0x27] @ '' pour la methode.''"

definition msg_too_many_method_arguments :: string where
  "msg_too_many_method_arguments = ''Trop d'arguments pour la methode.''"

section \<open>Parts of the evaluator that do not recurse\<close>

text \<open>\<^verbatim>\<open>_check_valid_piandor_type\<close>\<close>

fun check_valid_piandor_type :: "host \<Rightarrow> env_value \<Rightarrow> exn + unit" where
  "check_valid_piandor_type h (VBool b) = Inr ()"
| "check_valid_piandor_type h (VNumber q) = Inr ()"
| "check_valid_piandor_type h (VString str) = Inr ()"
| "check_valid_piandor_type h VNone = Inr ()"
| "check_valid_piandor_type h (VList xs) = Inr ()"
| "check_valid_piandor_type h (VTuple xs) = Inr ()"
| "check_valid_piandor_type h v = Inl (TypeError (msg_piandor (type_name h v)))"

text \<open>
  The indexing of \<^verbatim>\<open>_evaluate_subscript\<close>, once the collection and the index are
  evaluated.
\<close>

definition subscript_value :: "host \<Rightarrow> env_value \<Rightarrow> env_value \<Rightarrow> exn + env_value" where
  "subscript_value h collection index =
     (case collection of
        VList xs \<Rightarrow>
          (case check_type_VNumber h index of
             Inl e \<Rightarrow> Inl e
           | Inr idx \<Rightarrow> py_index ''list'' xs (py_int idx))
      | VTuple xs \<Rightarrow>
          (case check_type_VNumber h index of
             Inl e \<Rightarrow> Inl e
           | Inr idx \<Rightarrow> py_index ''tuple'' xs (py_int idx))
      | VString str \<Rightarrow>
          (case check_type_VNumber h index of
             Inl e \<Rightarrow> Inl e
           | Inr idx \<Rightarrow>
              (case py_index ''string'' str (py_int idx) of
                 Inl e \<Rightarrow> Inl e
               | Inr c \<Rightarrow> Inr (VString [c])))
      | _ \<Rightarrow> Inl (TypeError msg_subscript))"

text \<open>
  The loop \<^verbatim>\<open>for i, arg_name in enumerate(arg_names)\<close> of both call protocols, from
  index \<open>i\<close> on: it binds parameter after parameter and raises at the first one that has
  no argument.
\<close>

fun bind_params ::
  "string list \<Rightarrow> nat \<Rightarrow> env_value list \<Rightarrow> nat \<Rightarrow> (string \<Rightarrow> exn) \<Rightarrow> store \<Rightarrow> (exn + unit) \<times> store"
where
  "bind_params [] i args call_env missing s = (Inr (), s)"
| "bind_params (arg_name # rest) i args call_env missing s =
     (if i < length args
      then bind_params rest (Suc i) args call_env missing (insert_env call_env arg_name (args ! i) s)
      else (Inl (missing arg_name), s))"

text \<open>\<^verbatim>\<open>if funcdef.vararg\<close>: a declared name that is not empty.\<close>

definition declared_vararg :: "funcdef \<Rightarrow> string option" where
  "declared_vararg fd =
     (case vararg fd of None \<Rightarrow> None | Some v \<Rightarrow> if v = [] then None else Some v)"

text \<open>
  The binding of arguments in \<^verbatim>\<open>_execute_function_call\<close>, in the new frame
  \<open>call_env\<close>.
\<close>

definition bind_function_arguments ::
  "funcdef \<Rightarrow> env_value list \<Rightarrow> nat \<Rightarrow> store \<Rightarrow> (exn + unit) \<times> store"
where
  "bind_function_arguments fd args call_env s =
     (case bind_params (arg_names fd) 0 args call_env (\<lambda>arg_name. TypeError msg_missing_argument) s of
        (Inl e, s1) \<Rightarrow> (Inl e, s1)
      | (Inr u, s1) \<Rightarrow>
          (case declared_vararg fd of
             Some v \<Rightarrow> (Inr (), insert_env call_env v (VList (drop (length (arg_names fd)) args)) s1)
           | None \<Rightarrow>
               if length args > length (arg_names fd)
               then (Inl (TypeError msg_too_many_arguments), s1)
               else (Inr (), s1)))"

text \<open>
  The binding of the receiver and of the arguments in \<^verbatim>\<open>_execute_method_call\<close>.
\<close>

definition bind_method_arguments ::
  "funcdef \<Rightarrow> env_value \<Rightarrow> env_value list \<Rightarrow> nat \<Rightarrow> store \<Rightarrow> (exn + unit) \<times> store"
where
  "bind_method_arguments fd inst args call_env s =
     (if arg_names fd = [] \<or> hd (arg_names fd) \<noteq> ''self''
      then (Inl (TypeError msg_self), s)
      else
        (case bind_params (tl (arg_names fd)) 0 args call_env
                (\<lambda>arg_name. TypeError (msg_missing_method_argument arg_name))
                (insert_env call_env ''self'' inst s) of
           (Inl e, s1) \<Rightarrow> (Inl e, s1)
         | (Inr u, s1) \<Rightarrow>
             if length args > length (tl (arg_names fd))
             then (Inl (TypeError msg_too_many_method_arguments), s1)
             else (Inr (), s1)))"

text \<open>
  The end of \<^verbatim>\<open>_execute_method_call\<close>: a \<^verbatim>\<open>ReturnException\<close> gives its value; a
  body that ends without one gives \<open>VNone\<close> for \<^verbatim>\<open>__init__\<close> and its last value
  otherwise.
\<close>

definition method_result :: "funcdef \<Rightarrow> env_value outcome \<Rightarrow> env_value outcome" where
  "method_result fd m =
     (case m of
        None \<Rightarrow> None
      | Some (Inl (ReturnException v), s) \<Rightarrow> Some (Inr v, s)
      | Some (Inl e, s) \<Rightarrow> Some (Inl e, s)
      | Some (Inr result, s) \<Rightarrow>
          if name fd = ''__init__'' then Some (Inr VNone, s) else Some (Inr result, s))"

text \<open>
  The dict comprehension of the class definition: a later method of the same name
  replaces an earlier one.
\<close>

definition class_methods :: "funcdef list \<Rightarrow> nat \<Rightarrow> (string \<times> closure) list" where
  "class_methods ms env = fold (\<lambda>m d. AList.update (name m) (FunctionClosure m env) d) ms []"

definition object_at :: "store \<Rightarrow> nat \<Rightarrow> object option" where
  "object_at s a = (if a < length (objects s) then Some (objects s ! a) else None)"

text \<open>
  Attribute access on an evaluated receiver: the instance attributes first, then the
  methods of the class, bound to the receiver. A reference to no object has no
  counterpart in the source and gives no outcome.
\<close>

definition attribute_value :: "env_value \<Rightarrow> string \<Rightarrow> store \<Rightarrow> env_value outcome" where
  "attribute_value obj attr s =
     (case obj of
        VObject a \<Rightarrow>
          (case object_at s a of
             None \<Rightarrow> None
           | Some ob \<Rightarrow>
              (case map_of (attributes ob) attr of
                 Some v \<Rightarrow> Some (Inr v, s)
               | None \<Rightarrow>
                  (case map_of (methods (class_def ob)) attr of
                     Some method \<Rightarrow> Some (Inr (VMethodClosure method obj), s)
                   | None \<Rightarrow> Some (Inl (AttributeError (msg_no_attribute attr)), s))))
      | _ \<Rightarrow> Some (Inl (TypeError msg_only_objects), s))"

section \<open>Equality of values\<close>

text \<open>
  Modelled from the spec: the equality of values, which Python's \<^verbatim>\<open>in\<close> applies to
  the items of a list or tuple, is declared in \<^verbatim>\<open>pithon.evaluator.envvalue\<close>, which
  is missing. It is structural equality: two values are equal when they are of the same
  variant and their fields are equal, field after field, and the comparison ends at the
  first field that differs. A frame and an object are compared through the store, by
  their fields as well; one reference is equal to itself. Following references can go on
  forever in a store with a cycle, so it is bounded: each reference followed spends one
  unit of fuel, and a comparison that has none left, or meets a reference to nothing,
  has no result.
\<close>

definition both :: "bool option \<Rightarrow> bool option \<Rightarrow> bool option" where
  "both a b = (case a of None \<Rightarrow> None | Some t \<Rightarrow> if t then b else Some False)"

text \<open>Two sequences of the same length, item after item.\<close>

primrec all_equal :: "('a \<Rightarrow> bool option) list \<Rightarrow> 'a list \<Rightarrow> bool option" where
  "all_equal [] ys = Some True"
| "all_equal (f # fs) ys =
     (case ys of [] \<Rightarrow> Some True | y # rest \<Rightarrow> both (f y) (all_equal fs rest))"

text \<open>
  Two dictionaries: the same number of keys, and each key of the first bound in the
  second to an equal value.
\<close>

primrec entries_equal ::
  "('v \<Rightarrow> 'v \<Rightarrow> bool option) \<Rightarrow> (string \<times> 'v) list \<Rightarrow> (string \<times> 'v) list \<Rightarrow> bool option"
where
  "entries_equal eq [] d2 = Some True"
| "entries_equal eq (kv # rest) d2 =
     (case map_of d2 (fst kv) of
        None \<Rightarrow> Some False
      | Some v2 \<Rightarrow> both (eq (snd kv) v2) (entries_equal eq rest d2))"

definition equal_dicts ::
  "('v \<Rightarrow> 'v \<Rightarrow> bool option) \<Rightarrow> (string \<times> 'v) list \<Rightarrow> (string \<times> 'v) list \<Rightarrow> bool option"
where
  "equal_dicts eq d1 d2 = (if length d1 \<noteq> length d2 then Some False else entries_equal eq d1 d2)"

text \<open>
  Closures and classes, given the equality \<open>feq\<close> of two frames.
\<close>

definition equal_closures :: "(nat \<Rightarrow> nat \<Rightarrow> bool option) \<Rightarrow> closure \<Rightarrow> closure \<Rightarrow> bool option" where
  "equal_closures feq c1 c2 =
     both (Some (funcdef c1 = funcdef c2)) (feq (closure_env c1) (closure_env c2))"

definition equal_classes :: "(nat \<Rightarrow> nat \<Rightarrow> bool option) \<Rightarrow> classdef \<Rightarrow> classdef \<Rightarrow> bool option" where
  "equal_classes feq cd1 cd2 =
     both (Some (class_name cd1 = class_name cd2))
       (equal_dicts (equal_closures feq) (methods cd1) (methods cd2))"

text \<open>
  Two values, given the equality \<open>oeq\<close> of two objects and \<open>feq\<close> of two frames.
\<close>

primrec equal_values ::
  "(nat \<Rightarrow> nat \<Rightarrow> bool option) \<Rightarrow> (nat \<Rightarrow> nat \<Rightarrow> bool option) \<Rightarrow> env_value \<Rightarrow> env_value \<Rightarrow> bool option"
where
  "equal_values oeq feq (VNumber x) b = (case b of VNumber y \<Rightarrow> Some (x = y) | _ \<Rightarrow> Some False)"
| "equal_values oeq feq (VBool x) b = (case b of VBool y \<Rightarrow> Some (x = y) | _ \<Rightarrow> Some False)"
| "equal_values oeq feq (VString x) b = (case b of VString y \<Rightarrow> Some (x = y) | _ \<Rightarrow> Some False)"
| "equal_values oeq feq VNone b = (case b of VNone \<Rightarrow> Some True | _ \<Rightarrow> Some False)"
| "equal_values oeq feq (VList xs) b =
     (case b of
        VList ys \<Rightarrow>
          if length xs \<noteq> length ys then Some False
          else all_equal (map (equal_values oeq feq) xs) ys
      | _ \<Rightarrow> Some False)"
| "equal_values oeq feq (VTuple xs) b =
     (case b of
        VTuple ys \<Rightarrow>
          if length xs \<noteq> length ys then Some False
          else all_equal (map (equal_values oeq feq) xs) ys
      | _ \<Rightarrow> Some False)"
| "equal_values oeq feq (VFunctionClosure c) b =
     (case b of VFunctionClosure c2 \<Rightarrow> equal_closures feq c c2 | _ \<Rightarrow> Some False)"
| "equal_values oeq feq (VMethodClosure c inst) b =
     (case b of
        VMethodClosure c2 inst2 \<Rightarrow> both (equal_closures feq c c2) (equal_values oeq feq inst inst2)
      | _ \<Rightarrow> Some False)"
| "equal_values oeq feq (VClassDef cd) b =
     (case b of VClassDef cd2 \<Rightarrow> equal_classes feq cd cd2 | _ \<Rightarrow> Some False)"
| "equal_values oeq feq (VObject a) b =
     (case b of VObject a2 \<Rightarrow> oeq a a2 | _ \<Rightarrow> Some False)"
| "equal_values oeq feq (VPrimitive p) b =
     (case b of VPrimitive q \<Rightarrow> Some (p = q) | _ \<Rightarrow> Some False)"

definition frame_at :: "store \<Rightarrow> nat \<Rightarrow> env_frame option" where
  "frame_at s a = (if a < length (frames s) then Some (frames s ! a) else None)"

datatype ref_kind = Object_ref | Frame_ref

text \<open>
  Two references of one kind, with fuel \<open>n\<close>: an object by its class and its attributes,
  a frame by its bindings and its parent.
\<close>

primrec equal_refs :: "nat \<Rightarrow> store \<Rightarrow> ref_kind \<Rightarrow> nat \<Rightarrow> nat \<Rightarrow> bool option" where
  "equal_refs 0 s k a b = (if a = b then Some True else None)"
| "equal_refs (Suc n) s k a b =
     (if a = b then Some True
      else
        (case k of
           Object_ref \<Rightarrow>
             (case object_at s a of
                None \<Rightarrow> None
              | Some x \<Rightarrow>
                 (case object_at s b of
                    None \<Rightarrow> None
                  | Some y \<Rightarrow>
                     both (equal_classes (equal_refs n s Frame_ref) (class_def x) (class_def y))
                       (equal_dicts
                          (equal_values (equal_refs n s Object_ref) (equal_refs n s Frame_ref))
                          (attributes x) (attributes y))))
         | Frame_ref \<Rightarrow>
             (case frame_at s a of
                None \<Rightarrow> None
              | Some x \<Rightarrow>
                 (case frame_at s b of
                    None \<Rightarrow> None
                  | Some y \<Rightarrow>
                     both
                       (equal_dicts
                          (equal_values (equal_refs n s Object_ref) (equal_refs n s Frame_ref))
                          (vars x) (vars y))
                       (case parent x of
                          None \<Rightarrow> Some (parent y = None)
                        | Some p \<Rightarrow>
                           (case parent y of
                              None \<Rightarrow> Some False
                            | Some q \<Rightarrow> equal_refs n s Frame_ref p q))))))"

definition value_eq :: "nat \<Rightarrow> store \<Rightarrow> env_value \<Rightarrow> env_value \<Rightarrow> bool option" where
  "value_eq n s a b = equal_values (equal_refs n s Object_ref) (equal_refs n s Frame_ref) a b"

text \<open>
  Python's \<^verbatim>\<open>element in items\<close> on a list or tuple: the items in order, up to the
  first one equal to the element.
\<close>

primrec contains :: "('a \<Rightarrow> bool option) \<Rightarrow> 'a list \<Rightarrow> bool option" where
  "contains eq [] = Some False"
| "contains eq (item # items) =
     (case eq item of
        None \<Rightarrow> None
      | Some t \<Rightarrow> if t then Some True else contains eq items)"

text \<open>
  The values that hold no closure, class, object or primitive.
\<close>

primrec ground :: "env_value \<Rightarrow> bool" where
  "ground (VNumber x) = True"
| "ground (VBool x) = True"
| "ground (VString x) = True"
| "ground VNone = True"
| "ground (VList xs) = list_all (\<lambda>x. x) (map ground xs)"
| "ground (VTuple xs) = list_all (\<lambda>x. x) (map ground xs)"
| "ground (VFunctionClosure c) = False"
| "ground (VMethodClosure c inst) = False"
| "ground (VClassDef cd) = False"
| "ground (VObject a) = False"
| "ground (VPrimitive p) = False"

text \<open>
  The test of \<^verbatim>\<open>_evaluate_in\<close>, once the container and the element are evaluated,
  with fuel \<open>n\<close> for the equality of values. Python's \<^verbatim>\<open>in\<close> on two strings is the
  substring test.
\<close>

definition in_value :: "nat \<Rightarrow> store \<Rightarrow> env_value \<Rightarrow> env_value \<Rightarrow> (exn + env_value) option" where
  "in_value n s container element =
     (case container of
        VList xs \<Rightarrow>
          map_option (\<lambda>t. Inr (VBool t)) (contains (\<lambda>item. value_eq n s item element) xs)
      | VTuple xs \<Rightarrow>
          map_option (\<lambda>t. Inr (VBool t)) (contains (\<lambda>item. value_eq n s item element) xs)
      | VString str \<Rightarrow>
          (case element of
             VString sub \<Rightarrow> Some (Inr (VBool (sublist sub str)))
           | _ \<Rightarrow> Some (Inr (VBool False)))
      | _ \<Rightarrow> Some (Inl (TypeError msg_in)))"

section \<open>The evaluator\<close>

text \<open>
  The functions of \<^verbatim>\<open>evaluator.py\<close>. They call each other through
  \<^verbatim>\<open>evaluate_stmt\<close>, and a program may recurse or loop forever, so the evaluator has
  fuel: \<open>evaluate_stmt\<close> with fuel \<open>Suc n\<close> evaluates the statements nested in its node
  with fuel \<open>n\<close>, and with no fuel left it has no outcome. Each other function takes as
  \<open>ev\<close> the \<^verbatim>\<open>evaluate_stmt\<close> it calls, which is \<open>evaluate_stmt n h\<close>.

  \<open>exec_stmts\<close> is the loop \<^verbatim>\<open>for stmt in ...: last_value = evaluate_stmt(stmt, env)\<close>
  of \<^verbatim>\<open>evaluate\<close> and of both call protocols; \<open>eval_list\<close> is the comprehension
  \<^verbatim>\<open>[evaluate_stmt(e, env) for e in ...]\<close>.
\<close>

type_synonym evaluator = "node \<Rightarrow> nat \<Rightarrow> store \<Rightarrow> env_value outcome"

primrec exec_stmts :: "evaluator \<Rightarrow> node list \<Rightarrow> nat \<Rightarrow> env_value \<Rightarrow> store \<Rightarrow> env_value outcome" where
  "exec_stmts ev [] env last_value s = Some (Inr last_value, s)"
| "exec_stmts ev (stmt # stmts) env last_value s =
     and_then (ev stmt env s) (\<lambda>v s1. exec_stmts ev stmts env v s1)"

primrec eval_list :: "evaluator \<Rightarrow> node list \<Rightarrow> nat \<Rightarrow> store \<Rightarrow> (env_value list) outcome" where
  "eval_list ev [] env s = Some (Inr [], s)"
| "eval_list ev (e # es) env s =
     and_then (ev e env s) (\<lambda>v s1.
     and_then (eval_list ev es env s1) (\<lambda>vs s2. Some (Inr (v # vs), s2)))"

definition evaluate :: "evaluator \<Rightarrow> program \<Rightarrow> nat \<Rightarrow> store \<Rightarrow> env_value outcome" where
  "evaluate ev prog env s =
     wrap_errors
       (case prog of
          Program stmts \<Rightarrow> exec_stmts ev stmts env VNone s
        | Statement node \<Rightarrow> ev node env s)"

text \<open>
  \<^verbatim>\<open>_evaluate_while\<close>: \<open>k\<close> bounds the number of iterations still allowed, and
  \<open>last_value\<close> is the loop's local variable, which starts as \<open>VNone\<close>.
\<close>

primrec evaluate_while ::
  "nat \<Rightarrow> evaluator \<Rightarrow> host \<Rightarrow> node \<Rightarrow> node list \<Rightarrow> nat \<Rightarrow> env_value \<Rightarrow> store \<Rightarrow> env_value outcome"
where
  "evaluate_while 0 ev h condition body_stmts env last_value s = None"
| "evaluate_while (Suc k) ev h condition body_stmts env last_value s =
     and_then (ev condition env s) (\<lambda>cond s1.
       case check_type_VBool h cond of
         Inl e \<Rightarrow> Some (Inl e, s1)
       | Inr b \<Rightarrow>
           if \<not> b then Some (Inr last_value, s1)
           else
             (case evaluate ev (Program body_stmts) env s1 of
                None \<Rightarrow> None
              | Some (Inl BreakException, s2) \<Rightarrow> Some (Inr last_value, s2)
              | Some (Inl ContinueException, s2) \<Rightarrow>
                  evaluate_while k ev h condition body_stmts env last_value s2
              | Some (Inl e, s2) \<Rightarrow> Some (Inl e, s2)
              | Some (Inr v, s2) \<Rightarrow> evaluate_while k ev h condition body_stmts env v s2))"

text \<open>The iteration of \<^verbatim>\<open>_evaluate_for\<close> over the items that are left.\<close>

primrec for_loop ::
  "evaluator \<Rightarrow> string \<Rightarrow> node list \<Rightarrow> nat \<Rightarrow> env_value list \<Rightarrow> env_value \<Rightarrow> store \<Rightarrow> env_value outcome"
where
  "for_loop ev var body_stmts env [] last_value s = Some (Inr last_value, s)"
| "for_loop ev var body_stmts env (item # items) last_value s =
     (case evaluate ev (Program body_stmts) env (insert_env env var item s) of
        None \<Rightarrow> None
      | Some (Inl BreakException, s2) \<Rightarrow> Some (Inr last_value, s2)
      | Some (Inl ContinueException, s2) \<Rightarrow> for_loop ev var body_stmts env items last_value s2
      | Some (Inl e, s2) \<Rightarrow> Some (Inl e, s2)
      | Some (Inr v, s2) \<Rightarrow> for_loop ev var body_stmts env items v s2)"

definition evaluate_for ::
  "evaluator \<Rightarrow> string \<Rightarrow> node \<Rightarrow> node list \<Rightarrow> nat \<Rightarrow> store \<Rightarrow> env_value outcome"
where
  "evaluate_for ev var iterable body_stmts env s =
     and_then (ev iterable env s) (\<lambda>iterable_val s1.
       case iterable_val of
         VList items \<Rightarrow> for_loop ev var body_stmts env items VNone s1
       | VTuple items \<Rightarrow> for_loop ev var body_stmts env items VNone s1
       | _ \<Rightarrow> Some (Inl (TypeError msg_for), s1))"

definition evaluate_subscript ::
  "evaluator \<Rightarrow> host \<Rightarrow> node \<Rightarrow> node \<Rightarrow> nat \<Rightarrow> store \<Rightarrow> env_value outcome"
where
  "evaluate_subscript ev h collection_node index_node env s =
     and_then (ev collection_node env s) (\<lambda>collection s1.
     and_then (ev index_node env s1) (\<lambda>index s2.
       Some (subscript_value h collection index, s2)))"

text \<open>\<^verbatim>\<open>_evaluate_in\<close>; \<open>n\<close> is the fuel of the equality of values.\<close>

definition evaluate_in ::
  "evaluator \<Rightarrow> nat \<Rightarrow> node \<Rightarrow> node \<Rightarrow> nat \<Rightarrow> store \<Rightarrow> env_value outcome"
where
  "evaluate_in ev n element_node container_node env s =
     and_then (ev container_node env s) (\<lambda>container s1.
     and_then (ev element_node env s1) (\<lambda>element s2.
       map_option (\<lambda>r. (r, s2)) (in_value n s2 container element)))"

text \<open>
  \<^verbatim>\<open>_execute_function_call\<close>. The parameter \<open>env\<close>, the caller's frame, is not used, as
  in the source.
\<close>

definition execute_function_call ::
  "evaluator \<Rightarrow> closure \<Rightarrow> env_value list \<Rightarrow> nat \<Rightarrow> store \<Rightarrow> env_value outcome"
where
  "execute_function_call ev func_val args env s =
     (let (call_env, s0) = new_frame (Some (closure_env func_val)) s
      in case bind_function_arguments (funcdef func_val) args call_env s0 of
           (Inl e, s1) \<Rightarrow> Some (Inl e, s1)
         | (Inr u, s1) \<Rightarrow>
             catch_return (exec_stmts ev (body (funcdef func_val)) call_env VNone s1))"

text \<open>
  \<^verbatim>\<open>_execute_method_call\<close>, on the function and the instance of the method closure.
\<close>

definition execute_method_call ::
  "evaluator \<Rightarrow> closure \<Rightarrow> env_value \<Rightarrow> env_value list \<Rightarrow> nat \<Rightarrow> store \<Rightarrow> env_value outcome"
where
  "execute_method_call ev method inst args env s =
     (let (call_env, s0) = new_frame (Some (closure_env method)) s
      in case bind_method_arguments (funcdef method) inst args call_env s0 of
           (Inl e, s1) \<Rightarrow> Some (Inl e, s1)
         | (Inr u, s1) \<Rightarrow>
             method_result (funcdef method)
               (exec_stmts ev (body (funcdef method)) call_env VNone s1))"

text \<open>
  The dispatch of \<^verbatim>\<open>_evaluate_function_call\<close> on the evaluated callee.
\<close>

definition call_value ::
  "evaluator \<Rightarrow> host \<Rightarrow> env_value \<Rightarrow> env_value list \<Rightarrow> nat \<Rightarrow> store \<Rightarrow> env_value outcome"
where
  "call_value ev h func_val args env s =
     (case func_val of
        VClassDef cd \<Rightarrow>
          (let (a, s1) = new_object cd s
           in case map_of (methods cd) ''__init__'' of
                Some init_method \<Rightarrow>
                  and_then (execute_method_call ev init_method (VObject a) args env s1)
                    (\<lambda>r s2. Some (Inr (VObject a), s2))
              | None \<Rightarrow> Some (Inr (VObject a), s1))
      | VMethodClosure method inst \<Rightarrow> execute_method_call ev method inst args env s
      | VPrimitive p \<Rightarrow> Some (primitive h p args, s)
      | VFunctionClosure c \<Rightarrow> execute_function_call ev c args env s
      | _ \<Rightarrow> Some (Inl (TypeError msg_not_callable), s))"

definition evaluate_function_call ::
  "evaluator \<Rightarrow> host \<Rightarrow> node \<Rightarrow> node list \<Rightarrow> nat \<Rightarrow> store \<Rightarrow> env_value outcome"
where
  "evaluate_function_call ev h function arg_nodes env s =
     and_then (ev function env s) (\<lambda>func_val s1.
     and_then (eval_list ev arg_nodes env s1) (\<lambda>args s2.
       call_value ev h func_val args env s2))"

text \<open>
  The body of the \<^verbatim>\<open>try\<close> of \<^verbatim>\<open>evaluate_stmt\<close>: one equation per
  \<^verbatim>\<open>isinstance\<close> case, in the order of the source. \<open>n\<close> bounds the iterations of a
  \<^verbatim>\<open>while\<close> and the references an equality of values follows.
\<close>

fun evaluate_node :: "evaluator \<Rightarrow> nat \<Rightarrow> host \<Rightarrow> node \<Rightarrow> nat \<Rightarrow> store \<Rightarrow> env_value outcome" where
  "evaluate_node ev n h (PiNumber v) env s = Some (Inr (VNumber v), s)"
| "evaluate_node ev n h (PiBool v) env s = Some (Inr (VBool v), s)"
| "evaluate_node ev n h PiNone env s = Some (Inr VNone, s)"
| "evaluate_node ev n h (PiString v) env s = Some (Inr (VString v), s)"
| "evaluate_node ev n h (PiList elements) env s =
     and_then (eval_list ev elements env s) (\<lambda>vs s1. Some (Inr (VList vs), s1))"
| "evaluate_node ev n h (PiTuple elements) env s =
     and_then (eval_list ev elements env s) (\<lambda>vs s1. Some (Inr (VTuple vs), s1))"
| "evaluate_node ev n h (PiVariable x) env s = Some (lookup h s env x, s)"
| "evaluate_node ev n h (PiBinaryOperation left operator right) env s =
     ev (PiFunctionCall (PiVariable operator) [left, right]) env s"
| "evaluate_node ev n h (PiAssignment x value_node) env s =
     and_then (ev value_node env s) (\<lambda>v s1. Some (Inr v, insert_env env x v s1))"
| "evaluate_node ev n h (PiIfThenElse condition then_branch else_branch) env s =
     and_then (ev condition env s) (\<lambda>cond s1.
       case check_type_VBool h cond of
         Inl e \<Rightarrow> Some (Inl e, s1)
       | Inr b \<Rightarrow> evaluate ev (Program (if b then then_branch else else_branch)) env s1)"
| "evaluate_node ev n h (PiNot operand_node) env s =
     and_then (ev operand_node env s) (\<lambda>operand s1.
       case check_valid_piandor_type h operand of
         Inl e \<Rightarrow> Some (Inl e, s1)
       | Inr u \<Rightarrow> Some (Inr (VBool (\<not> truthy operand)), s1))"
| "evaluate_node ev n h (PiAnd left_node right_node) env s =
     and_then (ev left_node env s) (\<lambda>left s1.
       case check_valid_piandor_type h left of
         Inl e \<Rightarrow> Some (Inl e, s1)
       | Inr u \<Rightarrow>
           if \<not> truthy left then Some (Inr left, s1)
           else
             and_then (ev right_node env s1) (\<lambda>right s2.
               case check_valid_piandor_type h right of
                 Inl e \<Rightarrow> Some (Inl e, s2)
               | Inr u \<Rightarrow> Some (Inr right, s2)))"
| "evaluate_node ev n h (PiOr left_node right_node) env s =
     and_then (ev left_node env s) (\<lambda>left s1.
       case check_valid_piandor_type h left of
         Inl e \<Rightarrow> Some (Inl e, s1)
       | Inr u \<Rightarrow>
           if truthy left then Some (Inr left, s1)
           else
             and_then (ev right_node env s1) (\<lambda>right s2.
               case check_valid_piandor_type h right of
                 Inl e \<Rightarrow> Some (Inl e, s2)
               | Inr u \<Rightarrow> Some (Inr right, s2)))"
| "evaluate_node ev n h (PiWhile condition body_stmts) env s =
     evaluate_while n ev h condition body_stmts env VNone s"
| "evaluate_node ev n h (PiFunctionDef fd) env s =
     Some (Inr VNone, insert_env env (name fd) (VFunctionClosure (FunctionClosure fd env)) s)"
| "evaluate_node ev n h (PiReturn value_node) env s =
     and_then (ev value_node env s) (\<lambda>v s1. Some (Inl (ReturnException v), s1))"
| "evaluate_node ev n h (PiFunctionCall function args) env s =
     evaluate_function_call ev h function args env s"
| "evaluate_node ev n h (PiFor var iterable body_stmts) env s =
     evaluate_for ev var iterable body_stmts env s"
| "evaluate_node ev n h PiBreak env s = Some (Inl BreakException, s)"
| "evaluate_node ev n h PiContinue env s = Some (Inl ContinueException, s)"
| "evaluate_node ev n h (PiIn element container) env s = evaluate_in ev n element container env s"
| "evaluate_node ev n h (PiSubscript collection index) env s =
     evaluate_subscript ev h collection index env s"
| "evaluate_node ev n h (PiClassDef cname ms) env s =
     Some (Inr VNone, insert_env env cname (VClassDef (ClassDef cname (class_methods ms env))) s)"
| "evaluate_node ev n h (PiAttribute object_node attr) env s =
     and_then (ev object_node env s) (\<lambda>obj s1. attribute_value obj attr s1)"
| "evaluate_node ev n h (PiAttributeAssignment object_node attr value_node) env s =
     and_then (ev object_node env s) (\<lambda>obj s1.
       case obj of
         VObject a \<Rightarrow>
           and_then (ev value_node env s1) (\<lambda>v s2. Some (Inr v, set_attribute a attr v s2))
       | _ \<Rightarrow> Some (Inl (TypeError msg_only_objects), s1))"

text \<open>
  \<^verbatim>\<open>evaluate_stmt\<close>: the cases above inside the \<^verbatim>\<open>try\<close> that turns a
  \<^verbatim>\<open>TypeError\<close>, \<^verbatim>\<open>ZeroDivisionError\<close> or \<^verbatim>\<open>ValueError\<close> into a
  \<^verbatim>\<open>RuntimeError\<close>.
\<close>

primrec evaluate_stmt :: "nat \<Rightarrow> host \<Rightarrow> node \<Rightarrow> nat \<Rightarrow> store \<Rightarrow> env_value outcome" where
  "evaluate_stmt 0 h node env s = None"
| "evaluate_stmt (Suc n) h node env s =
     wrap_errors (evaluate_node (evaluate_stmt n h) n h node env s)"

text \<open>The entry point \<^verbatim>\<open>evaluate(node, env)\<close> with fuel \<open>n\<close>.\<close>

definition run :: "nat \<Rightarrow> host \<Rightarrow> program \<Rightarrow> nat \<Rightarrow> store \<Rightarrow> env_value outcome" where
  "run n h prog env s = evaluate (evaluate_stmt n h) prog env s"

text \<open>
  A host with no primitive, whose lookup of an unbound name raises a \<^verbatim>\<open>NameError\<close>.
\<close>

definition bare_host :: host where
  "bare_host =
     \<lparr>primitive = (\<lambda>p args. Inl (TypeError [])),
      primitive_names = [],
      primitive_type_name = (\<lambda>p. ''function''),
      unbound_name = (\<lambda>x. HostError ''NameError'' x),
      check_type_message = (\<lambda>v expected. expected)\<rparr>"

section \<open>Example programs\<close>

text \<open>
  \<^verbatim>\<open>y = 1; def f(): return y; y = 2; f()\<close>, and the same \<open>f\<close> called from a function
  \<open>g\<close> that has a local \<open>y\<close>; a function \<open>outer\<close> that sets \<open>x = 1\<close>, defines
  \<open>inner\<close> that returns \<open>x\<close>, sets \<open>x = 2\<close> and returns the call of \<open>inner\<close>; a
  function whose body is \<^verbatim>\<open>break\<close>, called in a loop of
  its caller; a class whose \<^verbatim>\<open>__init__\<close> returns a value, instantiated and then
  initialised again by an explicit call; a method and a function that declare a variadic
  parameter, each called with one argument more than its fixed parameters; a store whose
  root frame binds the name \<open>C\<close> to a class.
\<close>

definition closure_program :: "node list" where
  "closure_program =
     [PiAssignment ''y'' (PiNumber 1),
      PiFunctionDef (FuncDef ''f'' [] None [PiReturn (PiVariable ''y'')]),
      PiAssignment ''y'' (PiNumber 2),
      PiFunctionCall (PiVariable ''f'') []]"

definition caller_frame_program :: "node list" where
  "caller_frame_program =
     [PiAssignment ''y'' (PiNumber 1),
      PiFunctionDef (FuncDef ''f'' [] None [PiReturn (PiVariable ''y'')]),
      PiFunctionDef (FuncDef ''g'' [] None
        [PiAssignment ''y'' (PiNumber 5), PiReturn (PiFunctionCall (PiVariable ''f'') [])]),
      PiFunctionCall (PiVariable ''g'') []]"

definition nested_closure_program :: "node list" where
  "nested_closure_program =
     [PiFunctionDef (FuncDef ''outer'' [] None
        [PiAssignment ''x'' (PiNumber 1),
         PiFunctionDef (FuncDef ''inner'' [] None [PiReturn (PiVariable ''x'')]),
         PiAssignment ''x'' (PiNumber 2),
         PiReturn (PiFunctionCall (PiVariable ''inner'') [])]),
      PiFunctionCall (PiVariable ''outer'') []]"

definition break_program :: "node list" where
  "break_program =
     [PiFunctionDef (FuncDef ''f'' [] None [PiBreak]),
      PiWhile (PiBool True) [PiFunctionCall (PiVariable ''f'') []],
      PiNumber 7]"

definition init_return_program :: "node list" where
  "init_return_program =
     [PiClassDef ''C'' [FuncDef ''__init__'' [''self''] None [PiReturn (PiNumber 5)]],
      PiAssignment ''o'' (PiFunctionCall (PiVariable ''C'') []),
      PiFunctionCall (PiAttribute (PiVariable ''o'') ''__init__'') []]"

definition method_vararg_program :: "node list" where
  "method_vararg_program =
     [PiClassDef ''C'' [FuncDef ''m'' [''self''] (Some ''rest'') [PiReturn (PiVariable ''rest'')]],
      PiAssignment ''o'' (PiFunctionCall (PiVariable ''C'') []),
      PiFunctionCall (PiAttribute (PiVariable ''o'') ''m'') [PiNumber 4]]"

definition function_vararg_program :: "node list" where
  "function_vararg_program =
     [PiFunctionDef (FuncDef ''m'' [''x''] (Some ''rest'') [PiReturn (PiVariable ''rest'')]),
      PiFunctionCall (PiVariable ''m'') [PiNumber 0, PiNumber 4]]"

definition class_store :: "classdef \<Rightarrow> store" where
  "class_store cd = \<lparr>frames = [\<lparr>vars = [(''C'', VClassDef cd)], parent = None\<rparr>], objects = []\<rparr>"

section \<open>Basic facts\<close>

lemma and_then_simps:
  "and_then None f = None"
  "and_then (Some (Inl e, s)) f = Some (Inl e, s)"
  "and_then (Some (Inr v, s)) f = f v s"
  by (simp_all add: and_then_def)

lemma wrap_errors_simps:
  "wrap_errors None = None"
  "wrap_errors (Some (Inl e, s)) = Some (Inl (to_runtime_error e), s)"
  "wrap_errors (Some (Inr v, s)) = Some (Inr v, s)"
  by (simp_all add: wrap_errors_def)

lemma insert_env_length: "length (frames (insert_env e x v s)) = length (frames s)"
  by (simp add: insert_env_def)

lemma insert_env_objects: "objects (insert_env e x v s) = objects s"
  by (simp add: insert_env_def)

lemma insert_env_parent: "parent (frames (insert_env e x v s) ! a) = parent (frames s ! a)"
  by (cases "e < length (frames s)") (simp_all add: insert_env_def nth_list_update list_update_beyond)

lemma insert_env_lookup:
  assumes "e < length (frames s)"
  shows "lookup h (insert_env e x v s) e x = Inr v"
proof -
  obtain k where k: "length (frames s) = Suc k"
    using assms by (cases "length (frames s)") simp_all
  have "map_of (vars (frames (insert_env e x v s) ! e)) x = Some v"
    using assms by (simp add: insert_env_def update_conv')
  then show ?thesis
    using assms k by (simp add: lookup_def insert_env_length)
qed

lemma bind_params_length:
  "length (frames (snd (bind_params ps i args ce missing s))) = length (frames s)"
  by (induction ps arbitrary: i s) (simp_all add: insert_env_length)

lemma bind_params_objects:
  "objects (snd (bind_params ps i args ce missing s)) = objects s"
  by (induction ps arbitrary: i s) (simp_all add: insert_env_objects)

lemma bind_params_parent:
  "parent (frames (snd (bind_params ps i args ce missing s)) ! a) = parent (frames s ! a)"
  by (induction ps arbitrary: i s) (simp_all add: insert_env_parent)

lemma bind_params_enough:
  "length ps + i \<le> length args \<Longrightarrow> fst (bind_params ps i args ce missing s) = Inr ()"
  by (induction ps arbitrary: i s) simp_all

lemma bind_params_missing:
  "i \<le> length args \<Longrightarrow> length args < length ps + i \<Longrightarrow>
     \<exists>p \<in> set ps. fst (bind_params ps i args ce missing s) = Inl (missing p)"
  by (induction ps arbitrary: i s) auto

lemma bind_function_arguments_parent:
  "parent (frames (snd (bind_function_arguments fd args ce s)) ! a) = parent (frames s ! a)"
proof -
  obtain r sb where b: "bind_params (arg_names fd) 0 args ce (\<lambda>arg_name. TypeError msg_missing_argument) s = (r, sb)"
    by (cases "bind_params (arg_names fd) 0 args ce (\<lambda>arg_name. TypeError msg_missing_argument) s")
  have sb: "parent (frames sb ! a) = parent (frames s ! a)"
    using bind_params_parent[of "arg_names fd" 0 args ce "\<lambda>arg_name. TypeError msg_missing_argument" s a] b
    by simp
  show ?thesis
    using sb b
    by (simp add: bind_function_arguments_def insert_env_parent split: sum.splits option.splits)
qed

lemma execute_function_call_unfold:
  "execute_function_call ev (FunctionClosure fd cenv) args env s =
     (case bind_function_arguments fd args (length (frames s))
             (s\<lparr>frames := frames s @ [\<lparr>vars = [], parent = Some cenv\<rparr>]\<rparr>) of
        (Inl e, s1) \<Rightarrow> Some (Inl e, s1)
      | (Inr u, s1) \<Rightarrow> catch_return (exec_stmts ev (body fd) (length (frames s)) VNone s1))"
  by (simp add: execute_function_call_def new_frame_def split: prod.splits sum.splits)

lemma execute_method_call_unfold:
  "execute_method_call ev (FunctionClosure fd cenv) inst args env s =
     (case bind_method_arguments fd inst args (length (frames s))
             (s\<lparr>frames := frames s @ [\<lparr>vars = [], parent = Some cenv\<rparr>]\<rparr>) of
        (Inl e, s1) \<Rightarrow> Some (Inl e, s1)
      | (Inr u, s1) \<Rightarrow>
          method_result fd (exec_stmts ev (body fd) (length (frames s)) VNone s1))"
  by (simp add: execute_method_call_def new_frame_def split: prod.splits sum.splits)

lemma both_simps:
  "both None b = None"
  "both (Some True) b = b"
  "both (Some False) b = Some False"
  by (simp_all add: both_def)

lemma contains_total:
  "\<forall>x\<in>set xs. eq x \<noteq> None \<Longrightarrow> contains eq xs = Some (\<exists>x\<in>set xs. eq x = Some True)"
  by (induction xs) auto

lemma all_equal_ground:
  assumes "\<And>x y. x \<in> set xs \<Longrightarrow> ground y \<Longrightarrow> f x y = Some (x = y)"
    and "list_all (\<lambda>x. x) (map ground ys)"
    and "length xs = length ys"
  shows "all_equal (map f xs) ys = Some (xs = ys)"
  using assms
proof (induction xs arbitrary: ys)
  case Nil
  then show ?case by simp
next
  case (Cons x xs)
  then obtain y rest where ys: "ys = y # rest"
    by (cases ys) simp_all
  have head: "f x y = Some (x = y)"
    using Cons.prems ys by simp
  have tail: "all_equal (map f xs) rest = Some (xs = rest)"
    using Cons.IH[of rest] Cons.prems ys by simp
  show ?case
    using head tail ys by (cases "x = y") (simp_all add: both_simps)
qed

lemma equal_values_ground:
  "ground e \<Longrightarrow> equal_values oeq feq x e = Some (x = e)"
proof (induction x arbitrary: e)
  case (VList xs)
  then show ?case
    by (cases e) (auto simp add: all_equal_ground)
next
  case (VTuple xs)
  then show ?case
    by (cases e) (auto simp add: all_equal_ground)
next
  case (VNumber x)
  then show ?case by (cases e) simp_all
next
  case (VBool x)
  then show ?case by (cases e) simp_all
next
  case (VString x)
  then show ?case by (cases e) simp_all
next
  case VNone
  then show ?case by (cases e) simp_all
next
  case (VFunctionClosure x)
  then show ?case by (cases e) simp_all
next
  case (VMethodClosure x1 x2)
  then show ?case by (cases e) simp_all
next
  case (VClassDef x)
  then show ?case by (cases e) simp_all
next
  case (VObject x)
  then show ?case by (cases e) simp_all
next
  case (VPrimitive x)
  then show ?case by (cases e) simp_all
qed

section \<open>Arity of a function call\<close>

text \<open>
  Claim C7. A call of a function closure that declares no variadic parameter fails with
  the missing-argument \<^verbatim>\<open>TypeError\<close> when it has fewer arguments than declared
  parameters, and with the too-many-arguments \<^verbatim>\<open>TypeError\<close> when it has more. With a
  variadic parameter \<open>v\<close> and \<open>k\<close> arguments beyond the fixed parameters, the binding
  succeeds: the body runs in the new frame, whose parent is the captured frame, and
  there \<open>v\<close> is bound to the list of the \<open>k\<close> surplus arguments, in order.
\<close>

theorem function_arity:
  fixes fd :: funcdef and cenv :: nat and s :: store
  defines "f \<equiv> FunctionClosure fd cenv"
    and "call_env \<equiv> length (frames s)"
  shows
    "(declared_vararg fd = None \<and> length args < length (arg_names fd) \<longrightarrow>
        (\<exists>s1. execute_function_call ev f args env s =
                 Some (Inl (TypeError msg_missing_argument), s1))) \<and>
     (declared_vararg fd = None \<and> length args > length (arg_names fd) \<longrightarrow>
        (\<exists>s1. execute_function_call ev f args env s =
                 Some (Inl (TypeError msg_too_many_arguments), s1))) \<and>
     (\<forall>v k. declared_vararg fd = Some v \<and> length args = length (arg_names fd) + k \<longrightarrow>
        (\<exists>s1. execute_function_call ev f args env s =
                 catch_return (exec_stmts ev (body fd) call_env VNone s1) \<and>
               lookup h s1 call_env v = Inr (VList (drop (length (arg_names fd)) args)) \<and>
               length (drop (length (arg_names fd)) args) = k \<and>
               parent (frames s1 ! call_env) = Some cenv))"
proof (intro conjI impI allI)
  let ?s0 = "s\<lparr>frames := frames s @ [\<lparr>vars = [], parent = Some cenv\<rparr>]\<rparr>"
  let ?b = "bind_params (arg_names fd) 0 args call_env (\<lambda>arg_name. TypeError msg_missing_argument) ?s0"
  obtain r sb where b: "?b = (r, sb)"
    by (cases ?b)
  have unfold: "execute_function_call ev f args env s =
      (case bind_function_arguments fd args call_env ?s0 of
         (Inl e, s1) \<Rightarrow> Some (Inl e, s1)
       | (Inr u, s1) \<Rightarrow> catch_return (exec_stmts ev (body fd) call_env VNone s1))"
    by (simp add: execute_function_call_def f_def new_frame_def call_env_def
          split: prod.splits sum.splits)
  {
    assume a: "declared_vararg fd = None \<and> length args < length (arg_names fd)"
    then have "length args < length (arg_names fd) + 0" by simp
    from bind_params_missing[OF le0 this]
    obtain p :: string where "fst ?b = Inl ((\<lambda>arg_name. TypeError msg_missing_argument) p)"
      by blast
    then have "r = Inl (TypeError msg_missing_argument)"
      using b by simp
    then show "\<exists>s1. execute_function_call ev f args env s =
                 Some (Inl (TypeError msg_missing_argument), s1)"
      using b by (simp add: unfold bind_function_arguments_def)
  }
  {
    assume a: "declared_vararg fd = None \<and> length args > length (arg_names fd)"
    then have "fst ?b = Inr ()"
      using bind_params_enough[of "arg_names fd" 0 args] by simp
    then have "r = Inr ()"
      using b by simp
    then show "\<exists>s1. execute_function_call ev f args env s =
                 Some (Inl (TypeError msg_too_many_arguments), s1)"
      using a b by (simp add: unfold bind_function_arguments_def)
  }
  {
    fix v k
    assume a: "declared_vararg fd = Some v \<and> length args = length (arg_names fd) + k"
    let ?s1 = "insert_env call_env v (VList (drop (length (arg_names fd)) args)) sb"
    have "fst ?b = Inr ()"
      using a bind_params_enough[of "arg_names fd" 0 args] by simp
    then have r: "r = Inr ()"
      using b by simp
    have sb: "sb = snd ?b"
      using b by simp
    have len: "call_env < length (frames sb)"
      unfolding sb by (simp add: bind_params_length call_env_def)
    have 1: "execute_function_call ev f args env s =
               catch_return (exec_stmts ev (body fd) call_env VNone ?s1)"
      using a b r by (simp add: unfold bind_function_arguments_def)
    have 2: "lookup h ?s1 call_env v = Inr (VList (drop (length (arg_names fd)) args))"
      using len by (rule insert_env_lookup)
    have 3: "length (drop (length (arg_names fd)) args) = k"
      using a by simp
    have 4: "parent (frames ?s1 ! call_env) = Some cenv"
      unfolding sb by (simp add: insert_env_parent bind_params_parent call_env_def)
    show "\<exists>s1. execute_function_call ev f args env s =
                 catch_return (exec_stmts ev (body fd) call_env VNone s1) \<and>
               lookup h s1 call_env v = Inr (VList (drop (length (arg_names fd)) args)) \<and>
               length (drop (length (arg_names fd)) args) = k \<and>
               parent (frames s1 ! call_env) = Some cenv"
      using 1 2 3 4 by blast
  }
qed

theorem function_arity_witness:
  "(\<exists>s1. execute_function_call (evaluate_stmt 3 bare_host)
            (FunctionClosure (FuncDef ''f'' [''a'', ''b''] None [PiReturn (PiVariable ''a'')]) 0)
            [VNumber 1] 0 (snd (initial_env bare_host)) =
          Some (Inl (TypeError msg_missing_argument), s1)) \<and>
   (\<exists>s1. execute_function_call (evaluate_stmt 3 bare_host)
            (FunctionClosure (FuncDef ''f'' [''a'', ''b''] None [PiReturn (PiVariable ''a'')]) 0)
            [VNumber 1, VNumber 2, VNumber 3] 0 (snd (initial_env bare_host)) =
          Some (Inl (TypeError msg_too_many_arguments), s1)) \<and>
   (\<exists>s1. execute_function_call (evaluate_stmt 3 bare_host)
            (FunctionClosure (FuncDef ''f'' [''a'', ''b''] (Some ''c'') [PiReturn (PiVariable ''c'')]) 0)
            [VNumber 1, VNumber 2, VNumber 3] 0 (snd (initial_env bare_host)) =
          catch_return
            (exec_stmts (evaluate_stmt 3 bare_host) [PiReturn (PiVariable ''c'')] 1 VNone s1) \<and>
          lookup bare_host s1 1 ''c'' = Inr (VList [VNumber 3]))"
proof -
  let ?s = "snd (initial_env bare_host)"
  let ?fd = "FuncDef ''f'' [''a'', ''b''] None [PiReturn (PiVariable ''a'')]"
  let ?fv = "FuncDef ''f'' [''a'', ''b''] (Some ''c'') [PiReturn (PiVariable ''c'')]"
  have len: "length (frames ?s) = 1"
    by (simp add: initial_env_def)
  have 1: "declared_vararg ?fd = None \<and> length [VNumber 1] < length (arg_names ?fd)"
    by (simp add: declared_vararg_def)
  have 2: "declared_vararg ?fd = None \<and>
           length [VNumber 1, VNumber 2, VNumber 3] > length (arg_names ?fd)"
    by (simp add: declared_vararg_def)
  have 3: "declared_vararg ?fv = Some ''c'' \<and>
           length [VNumber 1, VNumber 2, VNumber 3] = length (arg_names ?fv) + 1"
    by (simp add: declared_vararg_def)
  show ?thesis
    using function_arity[of ?fd "[VNumber 1]" "evaluate_stmt 3 bare_host" 0 0 ?s bare_host] 1
      function_arity[of ?fd "[VNumber 1, VNumber 2, VNumber 3]" "evaluate_stmt 3 bare_host" 0 0 ?s bare_host] 2
      function_arity[of ?fv "[VNumber 1, VNumber 2, VNumber 3]" "evaluate_stmt 3 bare_host" 0 0 ?s bare_host] 3
    unfolding len by (simp; blast)
qed

section \<open>Containment\<close>

text \<open>
  Claim C8. Once the container and the element are evaluated, \<^verbatim>\<open>in\<close> on a list or a
  tuple is the membership test by structural equality of values: when the comparison of
  each item with the element ends within the fuel, the result is the Bool of whether
  some item is structurally equal to the element, and for an element that holds no
  closure, class, object or primitive it is the Bool of whether the element is one of
  the items, whatever the fuel. On a string with a string element it is the substring
  test; on a string with an element of another kind it is \<open>False\<close>, without an error; on
  any other container it raises the \<^verbatim>\<open>TypeError\<close> of \<^verbatim>\<open>_evaluate_in\<close>, which
  leaves \<^verbatim>\<open>evaluate_stmt\<close> through its \<^verbatim>\<open>try\<close>.
\<close>

theorem containment:
  assumes "evaluate_stmt n h container_node env s = Some (Inr c, s1)"
    and "evaluate_stmt n h element_node env s1 = Some (Inr e, s2)"
  shows
    "(\<forall>xs. (c = VList xs \<or> c = VTuple xs) \<and> (\<forall>x\<in>set xs. value_eq n s2 x e \<noteq> None) \<longrightarrow>
        evaluate_in (evaluate_stmt n h) n element_node container_node env s =
          Some (Inr (VBool (\<exists>x\<in>set xs. value_eq n s2 x e = Some True)), s2)) \<and>
     (\<forall>xs. (c = VList xs \<or> c = VTuple xs) \<and> ground e \<longrightarrow>
        evaluate_in (evaluate_stmt n h) n element_node container_node env s =
          Some (Inr (VBool (e \<in> set xs)), s2)) \<and>
     (\<forall>str sub. c = VString str \<and> e = VString sub \<longrightarrow>
        evaluate_in (evaluate_stmt n h) n element_node container_node env s =
          Some (Inr (VBool (\<exists>before after. str = before @ sub @ after)), s2)) \<and>
     (\<forall>str. c = VString str \<and> (\<forall>sub. e \<noteq> VString sub) \<longrightarrow>
        evaluate_in (evaluate_stmt n h) n element_node container_node env s =
          Some (Inr (VBool False), s2)) \<and>
     ((\<forall>xs. c \<noteq> VList xs \<and> c \<noteq> VTuple xs) \<and> (\<forall>str. c \<noteq> VString str) \<longrightarrow>
        evaluate_in (evaluate_stmt n h) n element_node container_node env s =
          Some (Inl (TypeError msg_in), s2)) \<and>
     evaluate_stmt (Suc n) h (PiIn element_node container_node) env s =
       wrap_errors (evaluate_in (evaluate_stmt n h) n element_node container_node env s)"
proof -
  have unfold: "evaluate_in (evaluate_stmt n h) n element_node container_node env s =
      map_option (\<lambda>r. (r, s2)) (in_value n s2 c e)"
    using assms by (simp add: evaluate_in_def and_then_simps)
  have 1: "\<forall>xs. (c = VList xs \<or> c = VTuple xs) \<and> (\<forall>x\<in>set xs. value_eq n s2 x e \<noteq> None) \<longrightarrow>
        evaluate_in (evaluate_stmt n h) n element_node container_node env s =
          Some (Inr (VBool (\<exists>x\<in>set xs. value_eq n s2 x e = Some True)), s2)"
    by (auto simp add: unfold in_value_def contains_total)
  have g: "\<And>xs. ground e \<Longrightarrow> contains (\<lambda>item. value_eq n s2 item e) xs = Some (e \<in> set xs)"
  proof -
    fix xs
    assume "ground e"
    then have eq: "\<And>x. value_eq n s2 x e = Some (x = e)"
      by (simp add: value_eq_def equal_values_ground)
    then have "contains (\<lambda>item. value_eq n s2 item e) xs = Some (\<exists>x\<in>set xs. x = e)"
      by (simp add: contains_total)
    then show "contains (\<lambda>item. value_eq n s2 item e) xs = Some (e \<in> set xs)"
      by auto
  qed
  have 2: "\<forall>xs. (c = VList xs \<or> c = VTuple xs) \<and> ground e \<longrightarrow>
        evaluate_in (evaluate_stmt n h) n element_node container_node env s =
          Some (Inr (VBool (e \<in> set xs)), s2)"
    by (auto simp add: unfold in_value_def g)
  have 3: "\<forall>str sub. c = VString str \<and> e = VString sub \<longrightarrow>
        evaluate_in (evaluate_stmt n h) n element_node container_node env s =
          Some (Inr (VBool (\<exists>before after. str = before @ sub @ after)), s2)"
    by (simp add: unfold in_value_def sublist_def)
  have 4: "\<forall>str. c = VString str \<and> (\<forall>sub. e \<noteq> VString sub) \<longrightarrow>
        evaluate_in (evaluate_stmt n h) n element_node container_node env s =
          Some (Inr (VBool False), s2)"
    by (cases e) (simp_all add: unfold in_value_def)
  have 5: "(\<forall>xs. c \<noteq> VList xs \<and> c \<noteq> VTuple xs) \<and> (\<forall>str. c \<noteq> VString str) \<longrightarrow>
        evaluate_in (evaluate_stmt n h) n element_node container_node env s =
          Some (Inl (TypeError msg_in), s2)"
    by (cases c) (simp_all add: unfold in_value_def)
  have 6: "evaluate_stmt (Suc n) h (PiIn element_node container_node) env s =
       wrap_errors (evaluate_in (evaluate_stmt n h) n element_node container_node env s)"
    by simp
  show ?thesis
    using 1 2 3 4 5 6 by blast
qed

theorem containment_witness:
  "evaluate_in (evaluate_stmt 1 bare_host) 1 (PiString ''a'') (PiString ''abc'') 0
     (snd (initial_env bare_host)) =
   Some (Inr (VBool True), snd (initial_env bare_host)) \<and>
   evaluate_in (evaluate_stmt 1 bare_host) 1 (PiNumber 1) (PiString ''abc'') 0
     (snd (initial_env bare_host)) =
   Some (Inr (VBool False), snd (initial_env bare_host)) \<and>
   evaluate_in (evaluate_stmt 2 bare_host) 2 (PiNumber 1) (PiList [PiNumber 1, PiNumber 2]) 0
     (snd (initial_env bare_host)) =
   Some (Inr (VBool True), snd (initial_env bare_host)) \<and>
   evaluate_in (evaluate_stmt 1 bare_host) 1 (PiString ''x'') (PiNumber 5) 0
     (snd (initial_env bare_host)) =
   Some (Inl (TypeError msg_in), snd (initial_env bare_host)) \<and>
   evaluate_in (evaluate_stmt 4 bare_host) 4 (PiFunctionCall (PiVariable ''C'') [])
     (PiList [PiFunctionCall (PiVariable ''C'') []]) 0 (class_store (ClassDef ''C'' [])) =
   Some (Inr (VBool True),
         (class_store (ClassDef ''C'' []))
           \<lparr>objects := [\<lparr>class_def = ClassDef ''C'' [], attributes = []\<rparr>,
                        \<lparr>class_def = ClassDef ''C'' [], attributes = []\<rparr>]\<rparr>)"
proof -
  let ?s = "snd (initial_env bare_host)"
  have abc: "evaluate_stmt 1 bare_host (PiString ''abc'') 0 ?s = Some (Inr (VString ''abc''), ?s)"
    by (simp add: wrap_errors_simps)
  have a: "evaluate_stmt 1 bare_host (PiString ''a'') 0 ?s = Some (Inr (VString ''a''), ?s)"
    by (simp add: wrap_errors_simps)
  have x: "evaluate_stmt 1 bare_host (PiString ''x'') 0 ?s = Some (Inr (VString ''x''), ?s)"
    by (simp add: wrap_errors_simps)
  have one: "evaluate_stmt 1 bare_host (PiNumber 1) 0 ?s = Some (Inr (VNumber 1), ?s)"
    by (simp add: wrap_errors_simps)
  have one2: "evaluate_stmt 2 bare_host (PiNumber 1) 0 ?s = Some (Inr (VNumber 1), ?s)"
    by (simp add: eval_nat_numeral wrap_errors_simps)
  have five: "evaluate_stmt 1 bare_host (PiNumber 5) 0 ?s = Some (Inr (VNumber 5), ?s)"
    by (simp add: wrap_errors_simps)
  have l12: "evaluate_stmt 2 bare_host (PiList [PiNumber 1, PiNumber 2]) 0 ?s =
               Some (Inr (VList [VNumber 1, VNumber 2]), ?s)"
    by (simp add: eval_nat_numeral and_then_simps wrap_errors_simps)
  have sub: "\<exists>before after. ''abc'' = before @ ''a'' @ after"
    by (rule exI[of _ "[]"], rule exI[of _ "''bc''"]) simp
  let ?c = "class_store (ClassDef ''C'' [])"
  let ?ob = "\<lparr>class_def = ClassDef ''C'' [], attributes = []\<rparr>"
  let ?c1 = "?c\<lparr>objects := [?ob]\<rparr>"
  let ?c2 = "?c\<lparr>objects := [?ob, ?ob]\<rparr>"
  have lst: "evaluate_stmt 4 bare_host (PiList [PiFunctionCall (PiVariable ''C'') []]) 0 ?c =
               Some (Inr (VList [VObject 0]), ?c1)"
    by (simp add: eval_nat_numeral and_then_simps wrap_errors_simps evaluate_function_call_def
          call_value_def new_object_def lookup_def class_store_def)
  have elt: "evaluate_stmt 4 bare_host (PiFunctionCall (PiVariable ''C'') []) 0 ?c1 =
               Some (Inr (VObject 1), ?c2)"
    by (simp add: eval_nat_numeral and_then_simps wrap_errors_simps evaluate_function_call_def
          call_value_def new_object_def lookup_def class_store_def)
  have eq: "value_eq 4 ?c2 (VObject 0) (VObject 1) = Some True"
    by (simp add: value_eq_def eval_nat_numeral object_at_def class_store_def equal_classes_def
          equal_dicts_def both_simps)
  have obj: "evaluate_in (evaluate_stmt 4 bare_host) 4 (PiFunctionCall (PiVariable ''C'') [])
       (PiList [PiFunctionCall (PiVariable ''C'') []]) 0 ?c = Some (Inr (VBool True), ?c2)"
    using containment[OF lst elt] eq by auto
  show ?thesis
    using containment[OF abc a] containment[OF abc one] containment[OF l12 one2]
      containment[OF five x] sub obj
    by simp
qed

section \<open>Negative indices\<close>

text \<open>
  Claim C9. A subscript whose index truncates to a negative integer \<open>i\<close> with
  \<open>-n \<le> i < 0\<close>, on a list, tuple or string of length \<open>n\<close>, does not fail: it gives the
  element at position \<open>n + i\<close>, as a one-character string for a string.
\<close>

theorem negative_index:
  assumes "evaluate_stmt n h collection_node env s = Some (Inr c, s1)"
    and "evaluate_stmt n h index_node env s1 = Some (Inr (VNumber q), s2)"
    and "py_int q < 0"
  shows
    "(\<forall>xs. (c = VList xs \<or> c = VTuple xs) \<and> - int (length xs) \<le> py_int q \<longrightarrow>
        evaluate_stmt (Suc n) h (PiSubscript collection_node index_node) env s =
          Some (Inr (xs ! nat (int (length xs) + py_int q)), s2)) \<and>
     (\<forall>str. c = VString str \<and> - int (length str) \<le> py_int q \<longrightarrow>
        evaluate_stmt (Suc n) h (PiSubscript collection_node index_node) env s =
          Some (Inr (VString [str ! nat (int (length str) + py_int q)]), s2))"
  using assms
  by (auto simp add: evaluate_subscript_def and_then_simps wrap_errors_simps subscript_value_def
        check_type_VNumber_def py_index_def Let_def add.commute)

theorem negative_index_witness:
  "evaluate_stmt 3 bare_host
     (PiSubscript (PiList [PiNumber 10, PiNumber 20, PiNumber 30]) (PiNumber (- 1))) 0
     (snd (initial_env bare_host)) =
   Some (Inr (VNumber 30), snd (initial_env bare_host)) \<and>
   evaluate_stmt 3 bare_host (PiSubscript (PiString ''abc'') (PiNumber (- 3))) 0
     (snd (initial_env bare_host)) =
   Some (Inr (VString ''a''), snd (initial_env bare_host))"
proof -
  let ?s = "snd (initial_env bare_host)"
  have a: "evaluate_stmt 2 bare_host (PiList [PiNumber 10, PiNumber 20, PiNumber 30]) 0 ?s =
             Some (Inr (VList [VNumber 10, VNumber 20, VNumber 30]), ?s)"
    by (simp add: eval_nat_numeral and_then_simps wrap_errors_simps)
  have b: "evaluate_stmt 2 bare_host (PiNumber (- 1)) 0 ?s = Some (Inr (VNumber (- 1)), ?s)"
    by (simp add: eval_nat_numeral wrap_errors_simps)
  have c: "py_int (- 1) < 0"
    by (simp add: py_int_def)
  have a': "evaluate_stmt 2 bare_host (PiString ''abc'') 0 ?s = Some (Inr (VString ''abc''), ?s)"
    by (simp add: eval_nat_numeral wrap_errors_simps)
  have b': "evaluate_stmt 2 bare_host (PiNumber (- 3)) 0 ?s = Some (Inr (VNumber (- 3)), ?s)"
    by (simp add: eval_nat_numeral wrap_errors_simps)
  have c': "py_int (- 3) < 0"
    by (simp add: py_int_def)
  have 1: "py_int (- 1) = - 1" "py_int (- 3) = - 3"
    by (simp_all add: py_int_def ceiling_minus)
  show ?thesis
    using negative_index[OF a b c] negative_index[OF a' b' c']
    by (simp add: 1 eval_nat_numeral)
qed

section \<open>Instantiation of a class with no initializer\<close>

text \<open>
  Claim C10. A call whose callee evaluates to a class that defines no \<^verbatim>\<open>__init__\<close>
  returns a new object of that class with no attribute, whatever the number of evaluated
  arguments: they are not checked and not used.
\<close>

theorem class_without_init:
  assumes "evaluate_stmt n h function env s = Some (Inr (VClassDef cd), s1)"
    and "eval_list (evaluate_stmt n h) arg_nodes env s1 = Some (Inr args, s2)"
    and "map_of (methods cd) ''__init__'' = None"
  shows "evaluate_stmt (Suc n) h (PiFunctionCall function arg_nodes) env s =
           Some (Inr (VObject (length (objects s2))),
                 s2\<lparr>objects := objects s2 @ [\<lparr>class_def = cd, attributes = []\<rparr>]\<rparr>)"
  using assms
  by (simp add: evaluate_function_call_def and_then_simps call_value_def new_object_def
        wrap_errors_simps)

theorem class_without_init_witness:
  "evaluate_stmt 3 bare_host (PiFunctionCall (PiVariable ''C'') [PiNumber 1, PiNumber 2]) 0
     (class_store (ClassDef ''C'' [])) =
   Some (Inr (VObject 0),
         (class_store (ClassDef ''C'' []))
           \<lparr>objects := [\<lparr>class_def = ClassDef ''C'' [], attributes = []\<rparr>]\<rparr>)"
proof -
  let ?s = "class_store (ClassDef ''C'' [])"
  have a: "evaluate_stmt 2 bare_host (PiVariable ''C'') 0 ?s = Some (Inr (VClassDef (ClassDef ''C'' [])), ?s)"
    by (simp add: eval_nat_numeral wrap_errors_simps lookup_def class_store_def)
  have b: "eval_list (evaluate_stmt 2 bare_host) [PiNumber 1, PiNumber 2] 0 ?s =
             Some (Inr [VNumber 1, VNumber 2], ?s)"
    by (simp add: eval_nat_numeral wrap_errors_simps and_then_simps)
  have c: "map_of (methods (ClassDef ''C'' [])) ''__init__'' = None"
    by simp
  have d: "objects ?s = []"
    by (simp add: class_store_def)
  show ?thesis
    using class_without_init[OF a b c] by (simp add: d eval_nat_numeral)
qed

section \<open>Scope of a function call\<close>

text \<open>
  Claim C1. A function definition evaluated in a frame binds, in that frame, a closure
  that captures that same frame. A call of a function closure does not depend on the
  caller's frame: the body runs in a new frame, allocated at the next free address, whose
  parent is the frame the closure has captured. The frame is captured by reference:
  after \<open>y = 1\<close>, the definition of \<open>f\<close> that returns \<open>y\<close>, and \<open>y = 2\<close>, the call of
  \<open>f\<close> gives \<open>2\<close>; \<open>f\<close> called from a function with its own \<open>y = 5\<close> still gives the
  \<open>y\<close> of the frame of its definition; and a function defined inside a call captures the
  frame of that call, and sees the value its variable has when the function is called.
\<close>

theorem closure_call_scope:
  "evaluate_stmt (Suc n) h (PiFunctionDef fd) env s =
     Some (Inr VNone, insert_env env (name fd) (VFunctionClosure (FunctionClosure fd env)) s) \<and>
   (\<forall>env'. execute_function_call ev f args env s = execute_function_call ev f args env' s) \<and>
   execute_function_call ev f args env s =
     (case bind_function_arguments (funcdef f) args (length (frames s))
             (s\<lparr>frames := frames s @ [\<lparr>vars = [], parent = Some (closure_env f)\<rparr>]\<rparr>) of
        (Inl e, s1) \<Rightarrow> Some (Inl e, s1)
      | (Inr u, s1) \<Rightarrow>
          catch_return (exec_stmts ev (body (funcdef f)) (length (frames s)) VNone s1)) \<and>
   parent (frames (snd (bind_function_arguments (funcdef f) args (length (frames s))
             (s\<lparr>frames := frames s @ [\<lparr>vars = [], parent = Some (closure_env f)\<rparr>]\<rparr>)))
           ! length (frames s)) = Some (closure_env f) \<and>
   map_option fst (run 10 bare_host (Program closure_program) 0 (snd (initial_env bare_host))) =
     Some (Inr (VNumber 2)) \<and>
   map_option fst (run 10 bare_host (Program caller_frame_program) 0 (snd (initial_env bare_host))) =
     Some (Inr (VNumber 1)) \<and>
   map_option fst (run 10 bare_host (Program nested_closure_program) 0 (snd (initial_env bare_host))) =
     Some (Inr (VNumber 2))"
proof -
  have 0: "evaluate_stmt (Suc n) h (PiFunctionDef fd) env s =
     Some (Inr VNone, insert_env env (name fd) (VFunctionClosure (FunctionClosure fd env)) s)"
    by (simp add: wrap_errors_simps)
  have 1: "\<forall>env'. execute_function_call ev f args env s = execute_function_call ev f args env' s"
    by (simp add: execute_function_call_def)
  have 2: "execute_function_call ev f args env s =
     (case bind_function_arguments (funcdef f) args (length (frames s))
             (s\<lparr>frames := frames s @ [\<lparr>vars = [], parent = Some (closure_env f)\<rparr>]\<rparr>) of
        (Inl e, s1) \<Rightarrow> Some (Inl e, s1)
      | (Inr u, s1) \<Rightarrow>
          catch_return (exec_stmts ev (body (funcdef f)) (length (frames s)) VNone s1))"
    by (simp add: execute_function_call_def new_frame_def)
  have 3: "parent (frames (snd (bind_function_arguments (funcdef f) args (length (frames s))
             (s\<lparr>frames := frames s @ [\<lparr>vars = [], parent = Some (closure_env f)\<rparr>]\<rparr>)))
           ! length (frames s)) = Some (closure_env f)"
    by (simp add: bind_function_arguments_parent)
  have 4: "map_option fst (run 10 bare_host (Program closure_program) 0 (snd (initial_env bare_host))) =
     Some (Inr (VNumber 2))"
    by code_simp
  have 5: "map_option fst (run 10 bare_host (Program caller_frame_program) 0 (snd (initial_env bare_host))) =
     Some (Inr (VNumber 1))"
    by code_simp
  have 6: "map_option fst (run 10 bare_host (Program nested_closure_program) 0 (snd (initial_env bare_host))) =
     Some (Inr (VNumber 2))"
    by code_simp
  show ?thesis
    using 0 1 2 3 4 5 6 by blast
qed

section \<open>Control signals at a call boundary\<close>

text \<open>
  Claim C2, as stated, fails: a \<^verbatim>\<open>break\<close> in the body of a function, with no loop
  inside the call, leaves the call as the \<^verbatim>\<open>BreakException\<close> itself, and a loop of
  the caller around the call takes it as its own break, so the program below ends
  normally with the value of its last statement.
\<close>

theorem break_crosses_call_counterexample:
  "map_option fst
     (execute_function_call (evaluate_stmt 3 bare_host)
        (FunctionClosure (FuncDef ''f'' [] None [PiBreak]) 0) [] 0 (snd (initial_env bare_host))) =
     Some (Inl BreakException) \<and>
   map_option fst (run 10 bare_host (Program break_program) 0 (snd (initial_env bare_host))) =
     Some (Inr (VNumber 7))"
  by code_simp

text \<open>
  Claim C2, amended. A function call and a method call turn a \<^verbatim>\<open>ReturnException\<close>
  of the body into the value of the call, and nothing else: a \<^verbatim>\<open>BreakException\<close> or
  \<^verbatim>\<open>ContinueException\<close> of the body leaves the call unchanged, and the \<^verbatim>\<open>try\<close>
  of \<^verbatim>\<open>evaluate_stmt\<close> around the call passes it on unchanged to the caller.
\<close>

theorem call_boundary_signals:
  assumes "sig = BreakException \<or> sig = ContinueException"
  shows
    "(\<forall>s1 s2.
        bind_function_arguments fd args (length (frames s))
          (s\<lparr>frames := frames s @ [\<lparr>vars = [], parent = Some cenv\<rparr>]\<rparr>) = (Inr (), s1) \<and>
        exec_stmts ev (body fd) (length (frames s)) VNone s1 = Some (Inl sig, s2) \<longrightarrow>
        execute_function_call ev (FunctionClosure fd cenv) args env s = Some (Inl sig, s2)) \<and>
     (\<forall>s1 s2 v.
        bind_function_arguments fd args (length (frames s))
          (s\<lparr>frames := frames s @ [\<lparr>vars = [], parent = Some cenv\<rparr>]\<rparr>) = (Inr (), s1) \<and>
        exec_stmts ev (body fd) (length (frames s)) VNone s1 = Some (Inl (ReturnException v), s2) \<longrightarrow>
        execute_function_call ev (FunctionClosure fd cenv) args env s = Some (Inr v, s2)) \<and>
     (\<forall>s1 s2.
        bind_method_arguments fd inst args (length (frames s))
          (s\<lparr>frames := frames s @ [\<lparr>vars = [], parent = Some cenv\<rparr>]\<rparr>) = (Inr (), s1) \<and>
        exec_stmts ev (body fd) (length (frames s)) VNone s1 = Some (Inl sig, s2) \<longrightarrow>
        execute_method_call ev (FunctionClosure fd cenv) inst args env s = Some (Inl sig, s2)) \<and>
     (\<forall>s1 s2 v.
        bind_method_arguments fd inst args (length (frames s))
          (s\<lparr>frames := frames s @ [\<lparr>vars = [], parent = Some cenv\<rparr>]\<rparr>) = (Inr (), s1) \<and>
        exec_stmts ev (body fd) (length (frames s)) VNone s1 = Some (Inl (ReturnException v), s2) \<longrightarrow>
        execute_method_call ev (FunctionClosure fd cenv) inst args env s = Some (Inr v, s2)) \<and>
     (\<forall>n h function arg_nodes s2.
        evaluate_function_call (evaluate_stmt n h) h function arg_nodes env s = Some (Inl sig, s2) \<longrightarrow>
        evaluate_stmt (Suc n) h (PiFunctionCall function arg_nodes) env s = Some (Inl sig, s2))"
  using assms
  by (auto simp add: execute_function_call_unfold execute_method_call_unfold catch_return_def
        method_result_def wrap_errors_simps)

theorem call_boundary_signals_witness:
  "execute_function_call (evaluate_stmt 3 bare_host)
     (FunctionClosure (FuncDef ''f'' [] None [PiBreak]) 0) [] 0 (snd (initial_env bare_host)) =
   Some (Inl BreakException,
         (snd (initial_env bare_host))
           \<lparr>frames := frames (snd (initial_env bare_host)) @ [\<lparr>vars = [], parent = Some 0\<rparr>]\<rparr>)"
proof -
  let ?s = "snd (initial_env bare_host)"
  let ?fd = "FuncDef ''f'' [] None [PiBreak]"
  let ?s1 = "?s\<lparr>frames := frames ?s @ [\<lparr>vars = [], parent = Some 0\<rparr>]\<rparr>"
  have sig: "BreakException = BreakException \<or> BreakException = ContinueException"
    by simp
  have a: "bind_function_arguments ?fd [] (length (frames ?s)) ?s1 = (Inr (), ?s1)"
    by (simp add: bind_function_arguments_def declared_vararg_def)
  have b: "exec_stmts (evaluate_stmt 3 bare_host) (body ?fd) (length (frames ?s)) VNone ?s1 =
             Some (Inl BreakException, ?s1)"
    by (simp add: eval_nat_numeral wrap_errors_simps and_then_simps)
  show ?thesis
    using call_boundary_signals[OF sig, of ?fd "[]" ?s 0 "evaluate_stmt 3 bare_host"] a b
    by blast
qed

section \<open>Variadic parameter of a method\<close>

text \<open>
  Claim C3 fails on the code: a method that declares a variadic parameter, called with
  one argument beyond its fixed parameters, raises the too-many-arguments error, which
  leaves as a \<^verbatim>\<open>RuntimeError\<close>; a function with the same declaration, called the same
  way, returns the list of the surplus argument.
\<close>

theorem method_vararg_rejected:
  "map_option fst (run 10 bare_host (Program method_vararg_program) 0 (snd (initial_env bare_host))) =
     Some (Inl (RuntimeError msg_too_many_method_arguments)) \<and>
   map_option fst (run 10 bare_host (Program function_vararg_program) 0 (snd (initial_env bare_host))) =
     Some (Inr (VList [VNumber 4]))"
  by code_simp

section \<open>Instantiation and the result of the initializer\<close>

text \<open>
  Claim C4, as stated, fails: the result of an initializer is not forced to \<open>VNone\<close>
  whatever it returns. Called as a method on an object, an \<^verbatim>\<open>__init__\<close> whose body is
  \<^verbatim>\<open>return 5\<close> gives \<open>5\<close>.
\<close>

theorem init_return_value_counterexample:
  "map_option fst (run 10 bare_host (Program init_return_program) 0 (snd (initial_env bare_host))) =
     Some (Inr (VNumber 5))"
  by code_simp

text \<open>
  Claim C4, amended. A call whose callee evaluates to a class allocates a new object of
  the class with no attribute; without an \<^verbatim>\<open>__init__\<close> it returns that object, and
  with one it runs the method-call protocol on the object and the arguments and, when
  that call gives any result, discards the result and returns the object. The
  method-call protocol itself gives \<open>VNone\<close> for an \<^verbatim>\<open>__init__\<close> whose body ends
  without a \<^verbatim>\<open>ReturnException\<close>, and gives the returned value when the body returns
  one.
\<close>

theorem instantiation_returns_object:
  assumes "evaluate_stmt n h function env s = Some (Inr (VClassDef cd), s1)"
    and "eval_list (evaluate_stmt n h) arg_nodes env s1 = Some (Inr args, s2)"
  shows
    "(map_of (methods cd) ''__init__'' = None \<longrightarrow>
        evaluate_stmt (Suc n) h (PiFunctionCall function arg_nodes) env s =
          Some (Inr (VObject (length (objects s2))),
                s2\<lparr>objects := objects s2 @ [\<lparr>class_def = cd, attributes = []\<rparr>]\<rparr>)) \<and>
     (\<forall>init_method r s3.
        map_of (methods cd) ''__init__'' = Some init_method \<and>
        execute_method_call (evaluate_stmt n h) init_method (VObject (length (objects s2))) args env
          (s2\<lparr>objects := objects s2 @ [\<lparr>class_def = cd, attributes = []\<rparr>]\<rparr>) = Some (Inr r, s3) \<longrightarrow>
        evaluate_stmt (Suc n) h (PiFunctionCall function arg_nodes) env s =
          Some (Inr (VObject (length (objects s2))), s3)) \<and>
     (\<forall>ev fd cenv inst margs menv ms ms1 ms2 result.
        bind_method_arguments fd inst margs (length (frames ms))
          (ms\<lparr>frames := frames ms @ [\<lparr>vars = [], parent = Some cenv\<rparr>]\<rparr>) = (Inr (), ms1) \<and>
        exec_stmts ev (body fd) (length (frames ms)) VNone ms1 = Some (Inr result, ms2) \<and>
        name fd = ''__init__'' \<longrightarrow>
        execute_method_call ev (FunctionClosure fd cenv) inst margs menv ms = Some (Inr VNone, ms2)) \<and>
     (\<forall>ev fd cenv inst margs menv ms ms1 ms2 v.
        bind_method_arguments fd inst margs (length (frames ms))
          (ms\<lparr>frames := frames ms @ [\<lparr>vars = [], parent = Some cenv\<rparr>]\<rparr>) = (Inr (), ms1) \<and>
        exec_stmts ev (body fd) (length (frames ms)) VNone ms1 =
          Some (Inl (ReturnException v), ms2) \<longrightarrow>
        execute_method_call ev (FunctionClosure fd cenv) inst margs menv ms = Some (Inr v, ms2))"
  using assms
  by (auto simp add: evaluate_function_call_def and_then_simps call_value_def new_object_def
        wrap_errors_simps execute_method_call_unfold method_result_def)

theorem instantiation_returns_object_witness:
  "map_option fst
     (evaluate_stmt 5 bare_host (PiFunctionCall (PiVariable ''C'') []) 0
        (class_store (ClassDef ''C''
           [(''__init__'', FunctionClosure (FuncDef ''__init__'' [''self''] None [PiReturn (PiNumber 5)]) 0)]))) =
   Some (Inr (VObject 0))"
proof -
  let ?fd = "FuncDef ''__init__'' [''self''] None [PiReturn (PiNumber 5)]"
  let ?cd = "ClassDef ''C'' [(''__init__'', FunctionClosure ?fd 0)]"
  let ?s = "class_store ?cd"
  let ?s2 = "?s\<lparr>objects := objects ?s @ [\<lparr>class_def = ?cd, attributes = []\<rparr>]\<rparr>"
  have a: "evaluate_stmt 4 bare_host (PiVariable ''C'') 0 ?s = Some (Inr (VClassDef ?cd), ?s)"
    by (simp add: eval_nat_numeral wrap_errors_simps lookup_def class_store_def)
  have b: "eval_list (evaluate_stmt 4 bare_host) [] 0 ?s = Some (Inr [], ?s)"
    by simp
  have c: "map_of (methods ?cd) ''__init__'' = Some (FunctionClosure ?fd 0)"
    by simp
  obtain r s3 where d: "execute_method_call (evaluate_stmt 4 bare_host) (FunctionClosure ?fd 0)
          (VObject (length (objects ?s))) [] 0 ?s2 = Some (Inr r, s3)"
    by (simp add: execute_method_call_unfold bind_method_arguments_def method_result_def
          eval_nat_numeral wrap_errors_simps and_then_simps)
  show ?thesis
    using instantiation_returns_object[OF a b] c d
    by (simp add: eval_nat_numeral class_store_def)
qed

section \<open>Index out of range\<close>

text \<open>
  Claim C5 fails on the code: the \<^verbatim>\<open>IndexError\<close> of a subscript out of range is not
  among the exceptions that \<^verbatim>\<open>evaluate_stmt\<close> and \<^verbatim>\<open>evaluate\<close> turn into a
  \<^verbatim>\<open>RuntimeError\<close>, and leaves the evaluator as it is.
\<close>

theorem index_error_not_wrapped:
  "map_option fst
     (run 10 bare_host (Program [PiSubscript (PiList [PiNumber 1, PiNumber 2]) (PiNumber 5)]) 0
        (snd (initial_env bare_host))) =
     Some (Inl (IndexError ''list index out of range''))"
  by code_simp

section \<open>Errors leaving the evaluator\<close>

text \<open>
  Claim C6, as stated, fails: a \<^verbatim>\<open>break\<close> outside any loop is not classified and
  does not leave the evaluator as a \<^verbatim>\<open>RuntimeError\<close>, but as the
  \<^verbatim>\<open>BreakException\<close> itself.
\<close>

theorem break_not_resurfaced_counterexample:
  "map_option fst (run 10 bare_host (Program [PiBreak]) 0 (snd (initial_env bare_host))) =
     Some (Inl BreakException)"
  by code_simp

text \<open>
  Claim C6, amended. No \<^verbatim>\<open>TypeError\<close>, \<^verbatim>\<open>ZeroDivisionError\<close> or
  \<^verbatim>\<open>ValueError\<close> leaves \<^verbatim>\<open>evaluate_stmt\<close> or \<^verbatim>\<open>evaluate\<close>: one raised while a
  node is evaluated, by the evaluator or by a primitive, leaves as a \<^verbatim>\<open>RuntimeError\<close>
  with the same message. A statement that raises ends its statement sequence at once,
  with the exception and no value. A \<^verbatim>\<open>break\<close> or \<^verbatim>\<open>continue\<close> outside any loop
  leaves as its own signal.
\<close>

theorem errors_resurface:
  "(\<forall>e s1. evaluate_stmt n h node env s = Some (Inl e, s1) \<longrightarrow>
        (\<forall>m. e \<noteq> TypeError m \<and> e \<noteq> ZeroDivisionError m \<and> e \<noteq> ValueError m)) \<and>
   (\<forall>e s1. run n h prog env s = Some (Inl e, s1) \<longrightarrow>
        (\<forall>m. e \<noteq> TypeError m \<and> e \<noteq> ZeroDivisionError m \<and> e \<noteq> ValueError m)) \<and>
   (\<forall>e m s1.
        evaluate_node (evaluate_stmt n h) n h node env s = Some (Inl e, s1) \<and>
        (e = TypeError m \<or> e = ZeroDivisionError m \<or> e = ValueError m) \<longrightarrow>
        evaluate_stmt (Suc n) h node env s = Some (Inl (RuntimeError m), s1)) \<and>
   (\<forall>p function arg_nodes args e m s1 s2.
        evaluate_stmt n h function env s = Some (Inr (VPrimitive p), s1) \<and>
        eval_list (evaluate_stmt n h) arg_nodes env s1 = Some (Inr args, s2) \<and>
        primitive h p args = Inl e \<and> (e = ZeroDivisionError m \<or> e = ValueError m) \<longrightarrow>
        evaluate_stmt (Suc n) h (PiFunctionCall function arg_nodes) env s =
          Some (Inl (RuntimeError m), s2)) \<and>
   (\<forall>ev stmt stmts last_value e s1.
        ev stmt env s = Some (Inl e, s1) \<longrightarrow>
        exec_stmts ev (stmt # stmts) env last_value s = Some (Inl e, s1)) \<and>
   evaluate_stmt (Suc n) h PiBreak env s = Some (Inl BreakException, s) \<and>
   evaluate_stmt (Suc n) h PiContinue env s = Some (Inl ContinueException, s)"
proof -
  have wrap: "\<And>(r :: env_value outcome) e s1 m. wrap_errors r = Some (Inl e, s1) \<Longrightarrow>
      e \<noteq> TypeError m \<and> e \<noteq> ZeroDivisionError m \<and> e \<noteq> ValueError m"
  proof -
    fix r :: "env_value outcome" and e s1 m
    assume a: "wrap_errors r = Some (Inl e, s1)"
    then obtain e0 where "e = to_runtime_error e0"
      by (auto simp add: wrap_errors_def split: option.splits sum.splits prod.splits)
    then show "e \<noteq> TypeError m \<and> e \<noteq> ZeroDivisionError m \<and> e \<noteq> ValueError m"
      by (cases e0) simp_all
  qed
  have 1: "\<forall>e s1. evaluate_stmt n h node env s = Some (Inl e, s1) \<longrightarrow>
        (\<forall>m. e \<noteq> TypeError m \<and> e \<noteq> ZeroDivisionError m \<and> e \<noteq> ValueError m)"
  proof (cases n)
    case 0
    then show ?thesis by simp
  next
    case (Suc k)
    then show ?thesis using wrap by (simp del: evaluate_node.simps)
  qed
  have 2: "\<forall>e s1. run n h prog env s = Some (Inl e, s1) \<longrightarrow>
        (\<forall>m. e \<noteq> TypeError m \<and> e \<noteq> ZeroDivisionError m \<and> e \<noteq> ValueError m)"
    using wrap unfolding run_def evaluate_def by blast
  have 3: "\<forall>e m s1.
        evaluate_node (evaluate_stmt n h) n h node env s = Some (Inl e, s1) \<and>
        (e = TypeError m \<or> e = ZeroDivisionError m \<or> e = ValueError m) \<longrightarrow>
        evaluate_stmt (Suc n) h node env s = Some (Inl (RuntimeError m), s1)"
    by (auto simp add: wrap_errors_simps simp del: evaluate_node.simps)
  have 4: "\<forall>p function arg_nodes args e m s1 s2.
        evaluate_stmt n h function env s = Some (Inr (VPrimitive p), s1) \<and>
        eval_list (evaluate_stmt n h) arg_nodes env s1 = Some (Inr args, s2) \<and>
        primitive h p args = Inl e \<and> (e = ZeroDivisionError m \<or> e = ValueError m) \<longrightarrow>
        evaluate_stmt (Suc n) h (PiFunctionCall function arg_nodes) env s =
          Some (Inl (RuntimeError m), s2)"
    by (auto simp add: evaluate_function_call_def and_then_simps call_value_def wrap_errors_simps)
  have 5: "\<forall>ev stmt stmts last_value e s1.
        ev stmt env s = Some (Inl e, s1) \<longrightarrow>
        exec_stmts ev (stmt # stmts) env last_value s = Some (Inl e, s1)"
    by (simp add: and_then_simps)
  have 6: "evaluate_stmt (Suc n) h PiBreak env s = Some (Inl BreakException, s)"
    "evaluate_stmt (Suc n) h PiContinue env s = Some (Inl ContinueException, s)"
    by (simp_all add: wrap_errors_simps)
  show ?thesis
    using 1 2 3 4 5 6 by blast
qed

theorem errors_resurface_witness:
  "evaluate_stmt 3 bare_host (PiFunctionCall (PiNumber 5) []) 0 (snd (initial_env bare_host)) =
     Some (Inl (RuntimeError msg_not_callable), snd (initial_env bare_host))"
proof -
  let ?s = "snd (initial_env bare_host)"
  have a: "evaluate_node (evaluate_stmt 2 bare_host) 2 bare_host (PiFunctionCall (PiNumber 5) []) 0 ?s =
             Some (Inl (TypeError msg_not_callable), ?s) \<and>
           (TypeError msg_not_callable = TypeError msg_not_callable \<or>
            TypeError msg_not_callable = ZeroDivisionError msg_not_callable \<or>
            TypeError msg_not_callable = ValueError msg_not_callable)"
    by (simp add: eval_nat_numeral evaluate_function_call_def and_then_simps call_value_def
          wrap_errors_simps)
  have "evaluate_stmt (Suc 2) bare_host (PiFunctionCall (PiNumber 5) []) 0 ?s =
          Some (Inl (RuntimeError msg_not_callable), ?s)"
    using errors_resurface[of 2 bare_host "PiFunctionCall (PiNumber 5) []" 0 ?s] a
    by blast
  then show ?thesis
    by (simp add: eval_nat_numeral)
qed

end
